theory Spec2Isabelle
  imports Main
begin

section \<open>Shared types (types/auth.ts)\<close>

datatype UserRole = ADMIN | EDITOR

datatype ActionType = CREATE | UPDATE | DELETE | LOGIN | LOGOUT | APPROVE | REJECT

datatype ChangeStatus = PENDING | APPROVED | REJECTED

text \<open>The string value of each enum member, as the enum declarations give it.\<close>

fun ActionType_value :: "ActionType \<Rightarrow> string" where
  "ActionType_value CREATE = ''create''"
| "ActionType_value UPDATE = ''update''"
| "ActionType_value DELETE = ''delete''"
| "ActionType_value LOGIN = ''login''"
| "ActionType_value LOGOUT = ''logout''"
| "ActionType_value APPROVE = ''approve''"
| "ActionType_value REJECT = ''reject''"

fun ChangeStatus_value :: "ChangeStatus \<Rightarrow> string" where
  "ChangeStatus_value PENDING = ''pending''"
| "ChangeStatus_value APPROVED = ''approved''"
| "ChangeStatus_value REJECTED = ''rejected''"

fun UserRole_value :: "UserRole \<Rightarrow> string" where
  "UserRole_value ADMIN = ''admin''"
| "UserRole_value EDITOR = ''editor''"

text \<open>The identity a request carries once authenticated (\<open>req.user\<close>).\<close>

record JWTPayload =
  jwt_userId :: string
  jwt_email :: string
  jwt_role :: UserRole

section \<open>JSON values\<close>

text \<open>
  Request bodies and the \<open>json\<close> columns hold arbitrary JSON. A property that is
  \<open>undefined\<close> in JavaScript is an absent key here, and an optional value is an
  \<open>option\<close>. The handlers never look inside a number, so integers stand for them.
\<close>

datatype json =
    JNull
  | JBool bool
  | JNum int
  | JStr string
  | JArr "json list"
  | JObj "(string \<times> json) list"

text \<open>
  \<open>body.key\<close>: absent on anything that is not an object. A \<open>JObj\<close> stands for a
  parsed object, so each key occurs once in it.
\<close>

fun field :: "string \<Rightarrow> json \<Rightarrow> json option" where
  "field k (JObj kvs) = map_of kvs k"
| "field k _ = None"

fun is_object :: "json \<Rightarrow> bool" where
  "is_object (JObj kvs) = True"
| "is_object _ = False"

text \<open>
  An object literal written to a \<open>json\<close> column is serialised, which drops the
  properties whose value is \<open>undefined\<close>.
\<close>

fun object_literal :: "(string \<times> json option) list \<Rightarrow> json" where
  "object_literal kvs = JObj (List.map_filter (\<lambda>(k, v). map_option (Pair k) v) kvs)"

text \<open>
  A JavaScript value bound to a nullable column: both \<open>undefined\<close> and \<open>null\<close>
  end up as SQL NULL.
\<close>

fun sql_json :: "json option \<Rightarrow> json option" where
  "sql_json None = None"
| "sql_json (Some JNull) = None"
| "sql_json (Some v) = Some v"

section \<open>Database rows (db/schema.ts)\<close>

text \<open>Timestamps are milliseconds since the epoch; a nullable column is an \<open>option\<close>.\<close>

record User =
  u_id :: string
  u_email :: string
  u_password :: string
  u_role :: UserRole
  u_isActive :: bool
  u_createdAt :: nat
  u_updatedAt :: nat

record AuditLog =
  al_id :: string
  al_userId :: string
  al_action :: ActionType
  al_resourceType :: "string option"
  al_resourceId :: "string option"
  al_details :: "json option"
  al_ipAddress :: "string option"
  al_userAgent :: "string option"
  al_createdAt :: nat

record PendingChange =
  pc_id :: string
  pc_userId :: string
  pc_action :: ActionType
  pc_resourceType :: string
  pc_resourceId :: "string option"
  pc_changeData :: json
  pc_previousData :: "json option"
  pc_status :: ChangeStatus
  pc_reviewedBy :: "string option"
  pc_reviewedAt :: "nat option"
  pc_reviewNotes :: "string option"
  pc_createdAt :: nat
  pc_updatedAt :: nat

text \<open>The three tables the handlers below read and write, in insertion order.\<close>

record db =
  users :: "User list"
  auditLogs :: "AuditLog list"
  pendingChanges :: "PendingChange list"

text \<open>
  What a request takes from its surroundings. Every query is a promise that may reject
  (lost connection, malformed uuid, value too long for its column): the \<open>fail_*\<close>
  flags say which of the request's queries does. The constraints of schema.ts that the
  handlers can run into (primary key, foreign key to \<open>users\<close>, unique email, NOT NULL)
  are checked by the model functions themselves.
\<close>

record env =
  fail_read :: bool
  fail_write :: bool
  fail_audit :: bool
  uuid :: string
  audit_uuid :: string
  db_now :: nat
  audit_now :: nat
  date1 :: nat
  date2 :: nat

datatype error = ZodError | DbError

section \<open>AuditLogModel\<close>

record CreateAuditLogData =
  ad_userId :: string
  ad_action :: ActionType
  ad_resourceType :: "string option"
  ad_resourceId :: "string option"
  ad_details :: "json option"
  ad_ipAddress :: "string option"
  ad_userAgent :: "string option"

definition user_exists :: "db \<Rightarrow> string \<Rightarrow> bool" where
  "user_exists d uid = (uid \<in> u_id ` set (users d))"

text \<open>
  \<open>AuditLogModel.create\<close>: one INSERT ... RETURNING. \<open>fail\<close> is the rejection of the
  query, \<open>new_id\<close> the value of \<open>defaultRandom()\<close>, \<open>now\<close> the value of \<open>defaultNow()\<close>.
\<close>

definition AuditLogModel_create ::
  "bool \<Rightarrow> string \<Rightarrow> nat \<Rightarrow> CreateAuditLogData \<Rightarrow> db \<Rightarrow> error + (AuditLog \<times> db)" where
  "AuditLogModel_create fail new_id now data d =
     (if fail \<or> new_id \<in> al_id ` set (auditLogs d) \<or> \<not> user_exists d (ad_userId data)
      then Inl DbError
      else
        let row = \<lparr> al_id = new_id,
                    al_userId = ad_userId data,
                    al_action = ad_action data,
                    al_resourceType = ad_resourceType data,
                    al_resourceId = ad_resourceId data,
                    al_details = sql_json (ad_details data),
                    al_ipAddress = ad_ipAddress data,
                    al_userAgent = ad_userAgent data,
                    al_createdAt = now \<rparr>
        in Inr (row, d\<lparr>auditLogs := auditLogs d @ [row]\<rparr>))"

text \<open>
  \<open>orderBy(desc(createdAt))\<close>: newest first. The query leaves the order of rows with
  equal timestamps open; the model puts the row inserted later first.
\<close>

definition orderBy_desc :: "('a \<Rightarrow> nat) \<Rightarrow> 'a list \<Rightarrow> 'a list" where
  "orderBy_desc f xs = rev (sort_key f xs)"

text \<open>
  \<open>AuditLogModel.getByUserId(userId, limit = 50)\<close>: the default applies when the
  argument is left out (\<open>None\<close>). A negative LIMIT is an error of the database.
\<close>

definition AuditLogModel_getByUserId ::
  "bool \<Rightarrow> db \<Rightarrow> string \<Rightarrow> int option \<Rightarrow> error + AuditLog list" where
  "AuditLogModel_getByUserId fail d userId limit_arg =
     (let limit = (case limit_arg of None \<Rightarrow> 50 | Some l \<Rightarrow> l)
      in if fail \<or> limit < 0 then Inl DbError
         else Inr (take (nat limit)
                     (orderBy_desc al_createdAt
                        (filter (\<lambda>r. al_userId r = userId) (auditLogs d)))))"

definition AuditLogModel_getByResourceId ::
  "bool \<Rightarrow> db \<Rightarrow> string \<Rightarrow> error + AuditLog list" where
  "AuditLogModel_getByResourceId fail d resourceId =
     (if fail then Inl DbError
      else Inr (orderBy_desc al_createdAt
                  (filter (\<lambda>r. al_resourceId r = Some resourceId) (auditLogs d))))"

section \<open>PendingChangeModel (models/pending-change.model.ts)\<close>

record CreatePendingChangeData =
  cd_userId :: string
  cd_action :: ActionType
  cd_resourceType :: string
  cd_resourceId :: "string option"
  cd_changeData :: "json option"
  cd_previousData :: "json option"

record ReviewPendingChangeData =
  rd_reviewedBy :: string
  rd_status :: ChangeStatus
  rd_reviewNotes :: "string option"

text \<open>
  \<open>PendingChangeModel.create\<close>: the row is inserted with \<open>status: 'pending'\<close>; the
  columns the call does not name (\<open>reviewedBy\<close>, \<open>reviewedAt\<close>, \<open>reviewNotes\<close>) have no
  default and stay NULL. \<open>change_data\<close> is NOT NULL.
\<close>

definition PendingChangeModel_create ::
  "bool \<Rightarrow> string \<Rightarrow> nat \<Rightarrow> CreatePendingChangeData \<Rightarrow> db \<Rightarrow> error + (PendingChange \<times> db)" where
  "PendingChangeModel_create fail new_id now data d =
     (case sql_json (cd_changeData data) of
        None \<Rightarrow> Inl DbError
      | Some cdata \<Rightarrow>
          if fail \<or> new_id \<in> pc_id ` set (pendingChanges d) \<or> \<not> user_exists d (cd_userId data)
          then Inl DbError
          else
            let row = \<lparr> pc_id = new_id,
                        pc_userId = cd_userId data,
                        pc_action = cd_action data,
                        pc_resourceType = cd_resourceType data,
                        pc_resourceId = cd_resourceId data,
                        pc_changeData = cdata,
                        pc_previousData = sql_json (cd_previousData data),
                        pc_status = PENDING,
                        pc_reviewedBy = None,
                        pc_reviewedAt = None,
                        pc_reviewNotes = None,
                        pc_createdAt = now,
                        pc_updatedAt = now \<rparr>
            in Inr (row, d\<lparr>pendingChanges := pendingChanges d @ [row]\<rparr>))"

text \<open>\<open>PendingChangeModel.getById\<close>: \<open>result[0] || null\<close> of a SELECT ... LIMIT 1.\<close>

definition PendingChangeModel_getById ::
  "bool \<Rightarrow> db \<Rightarrow> string \<Rightarrow> error + PendingChange option" where
  "PendingChangeModel_getById fail d ident =
     (if fail then Inl DbError
      else Inr (find (\<lambda>r. pc_id r = ident) (pendingChanges d)))"

definition PendingChangeModel_getAllPending :: "bool \<Rightarrow> db \<Rightarrow> error + PendingChange list" where
  "PendingChangeModel_getAllPending fail d =
     (if fail then Inl DbError
      else Inr (orderBy_desc pc_createdAt
                  (filter (\<lambda>r. pc_status r = PENDING) (pendingChanges d))))"

definition PendingChangeModel_getByUserId ::
  "bool \<Rightarrow> db \<Rightarrow> string \<Rightarrow> error + PendingChange list" where
  "PendingChangeModel_getByUserId fail d userId =
     (if fail then Inl DbError
      else Inr (orderBy_desc pc_createdAt
                  (filter (\<lambda>r. pc_userId r = userId) (pendingChanges d))))"

definition PendingChangeModel_getByStatus ::
  "bool \<Rightarrow> db \<Rightarrow> ChangeStatus \<Rightarrow> error + PendingChange list" where
  "PendingChangeModel_getByStatus fail d status =
     (if fail then Inl DbError
      else Inr (orderBy_desc pc_createdAt
                  (filter (\<lambda>r. pc_status r = status) (pendingChanges d))))"

text \<open>
  The SET clause of \<open>PendingChangeModel.review\<close> on one row. A key whose value is
  \<open>undefined\<close> is left out of the UPDATE, so absent notes keep the column as it is.
\<close>

definition review_set :: "ReviewPendingChangeData \<Rightarrow> nat \<Rightarrow> nat \<Rightarrow> PendingChange \<Rightarrow> PendingChange" where
  "review_set reviewData reviewedAt updatedAt r =
     r\<lparr> pc_status := rd_status reviewData,
        pc_reviewedBy := Some (rd_reviewedBy reviewData),
        pc_reviewedAt := Some reviewedAt,
        pc_reviewNotes := (case rd_reviewNotes reviewData of
                             None \<Rightarrow> pc_reviewNotes r
                           | Some n \<Rightarrow> Some n),
        pc_updatedAt := updatedAt \<rparr>"

text \<open>
  \<open>PendingChangeModel.review\<close>: UPDATE ... WHERE id = \<open>ident\<close> RETURNING; the WHERE
  clause is \<open>eq(pendingChanges.id, id)\<close> and nothing else. The result is
  \<open>result[0] || null\<close>. \<open>reviewed_by\<close> references \<open>users\<close>.
\<close>

definition PendingChangeModel_review ::
  "bool \<Rightarrow> nat \<Rightarrow> nat \<Rightarrow> string \<Rightarrow> ReviewPendingChangeData \<Rightarrow> db \<Rightarrow>
     error + (PendingChange option \<times> db)" where
  "PendingChangeModel_review fail reviewedAt updatedAt ident reviewData d =
     (let hit = (\<lambda>r. pc_id r = ident);
          rows = map (\<lambda>r. if hit r then review_set reviewData reviewedAt updatedAt r else r)
                     (pendingChanges d)
      in if fail \<or> (Bex (set (pendingChanges d)) hit \<and> \<not> user_exists d (rd_reviewedBy reviewData))
         then Inl DbError
         else Inr (find hit rows, d\<lparr>pendingChanges := rows\<rparr>))"

definition PendingChangeModel_delete :: "bool \<Rightarrow> string \<Rightarrow> db \<Rightarrow> error + (bool \<times> db)" where
  "PendingChangeModel_delete fail ident d =
     (if fail then Inl DbError
      else Inr (Bex (set (pendingChanges d)) (\<lambda>r. pc_id r = ident),
                d\<lparr>pendingChanges := filter (\<lambda>r. pc_id r \<noteq> ident) (pendingChanges d)\<rparr>))"

section \<open>UserModel (models/user.model.ts)\<close>

definition UserModel_findByEmail :: "bool \<Rightarrow> db \<Rightarrow> string \<Rightarrow> error + User option" where
  "UserModel_findByEmail fail d email =
     (if fail then Inl DbError else Inr (find (\<lambda>r. u_email r = email) (users d)))"

definition UserModel_findById :: "bool \<Rightarrow> db \<Rightarrow> string \<Rightarrow> error + User option" where
  "UserModel_findById fail d ident =
     (if fail then Inl DbError else Inr (find (\<lambda>r. u_id r = ident) (users d)))"

text \<open>\<open>UserModel.create\<close>: \<open>id\<close> is the primary key and \<open>email\<close> is unique.\<close>

definition UserModel_create ::
  "bool \<Rightarrow> string \<Rightarrow> nat \<Rightarrow> string \<Rightarrow> string \<Rightarrow> UserRole \<Rightarrow> db \<Rightarrow> error + (User \<times> db)" where
  "UserModel_create fail new_id now email password role d =
     (if fail \<or> new_id \<in> u_id ` set (users d) \<or> email \<in> u_email ` set (users d)
      then Inl DbError
      else
        let newUser = \<lparr> u_id = new_id, u_email = email, u_password = password, u_role = role,
                        u_isActive = True, u_createdAt = now, u_updatedAt = now \<rparr>
        in Inr (newUser, d\<lparr>users := users d @ [newUser]\<rparr>))"

definition UserModel_updatePassword ::
  "bool \<Rightarrow> nat \<Rightarrow> string \<Rightarrow> string \<Rightarrow> db \<Rightarrow> error + (bool \<times> db)" where
  "UserModel_updatePassword fail now userId hashedPassword d =
     (if fail then Inl DbError
      else Inr (Bex (set (users d)) (\<lambda>r. u_id r = userId),
                d\<lparr>users := map (\<lambda>r. if u_id r = userId
                                      then r\<lparr>u_password := hashedPassword, u_updatedAt := now\<rparr>
                                      else r) (users d)\<rparr>))"

definition UserModel_getAll :: "bool \<Rightarrow> db \<Rightarrow> error + User list" where
  "UserModel_getAll fail d = (if fail then Inl DbError else Inr (users d))"

definition UserModel_updateRole ::
  "bool \<Rightarrow> nat \<Rightarrow> string \<Rightarrow> UserRole \<Rightarrow> db \<Rightarrow> error + (bool \<times> db)" where
  "UserModel_updateRole fail now userId role d =
     (if fail then Inl DbError
      else Inr (Bex (set (users d)) (\<lambda>r. u_id r = userId),
                d\<lparr>users := map (\<lambda>r. if u_id r = userId
                                      then r\<lparr>u_role := role, u_updatedAt := now\<rparr>
                                      else r) (users d)\<rparr>))"

definition UserModel_toggleActive ::
  "bool \<Rightarrow> nat \<Rightarrow> string \<Rightarrow> bool \<Rightarrow> db \<Rightarrow> error + (bool \<times> db)" where
  "UserModel_toggleActive fail now userId isActive d =
     (if fail then Inl DbError
      else Inr (Bex (set (users d)) (\<lambda>r. u_id r = userId),
                d\<lparr>users := map (\<lambda>r. if u_id r = userId
                                      then r\<lparr>u_isActive := isActive, u_updatedAt := now\<rparr>
                                      else r) (users d)\<rparr>))"

text \<open>
  A user row that an audit log or a pending change references cannot be deleted: the
  foreign keys of schema.ts declare no ON DELETE action.
\<close>

definition user_referenced :: "db \<Rightarrow> string \<Rightarrow> bool" where
  "user_referenced d ident =
     (ident \<in> al_userId ` set (auditLogs d)
      \<or> ident \<in> pc_userId ` set (pendingChanges d)
      \<or> Some ident \<in> pc_reviewedBy ` set (pendingChanges d))"

definition UserModel_deleteById :: "bool \<Rightarrow> string \<Rightarrow> db \<Rightarrow> error + (bool \<times> db)" where
  "UserModel_deleteById fail ident d =
     (if fail \<or> (Bex (set (users d)) (\<lambda>r. u_id r = ident) \<and> user_referenced d ident)
      then Inl DbError
      else Inr (Bex (set (users d)) (\<lambda>r. u_id r = ident),
                d\<lparr>users := filter (\<lambda>r. u_id r \<noteq> ident) (users d)\<rparr>))"

section \<open>Responses and request validation\<close>

text \<open>
  \<open>Success message data\<close> is \<open>res.json({ success: true, message, data })\<close> (status 200),
  \<open>Message message\<close> is \<open>res.json({ message })\<close> (status 200), and
  \<open>Failure status error\<close> is \<open>res.status(status).json({ error })\<close>.
\<close>

datatype 'a response = Success string 'a | Message string | Failure nat string

text \<open>The \<open>catch\<close> block shared by the handlers that parse a body.\<close>

fun catch_zod :: "error \<Rightarrow> 'a response" where
  "catch_zod ZodError = Failure 400 ''Invalid input''"
| "catch_zod DbError = Failure 500 ''Internal server error''"

text \<open>The error kinds of the specification, as the responses the routes send.\<close>

definition PolicyViolation :: "'a response" where
  "PolicyViolation = Failure 400 ''Super admins do not need approval for changes''"

definition InvalidState :: "'a response" where
  "InvalidState = Failure 400 ''This change has already been reviewed''"

definition NotFound :: "'a response" where
  "NotFound = Failure 404 ''Pending change not found''"

text \<open>\<open>z.string()\<close> and \<open>z.string().optional()\<close> on a property; \<open>None\<close> is an issue.\<close>

fun z_string :: "json option \<Rightarrow> string option" where
  "z_string (Some (JStr s)) = Some s"
| "z_string _ = None"

fun z_string_optional :: "json option \<Rightarrow> string option option" where
  "z_string_optional None = Some None"
| "z_string_optional (Some (JStr s)) = Some (Some s)"
| "z_string_optional _ = None"

fun z_boolean :: "json option \<Rightarrow> bool option" where
  "z_boolean (Some (JBool b)) = Some b"
| "z_boolean _ = None"

text \<open>\<open>z.enum(['create', 'update', 'delete'])\<close>, then \<open>as ActionType\<close>.\<close>

definition z_enum_action :: "json option \<Rightarrow> ActionType option" where
  "z_enum_action v =
     (if v = Some (JStr ''create'') then Some CREATE
      else if v = Some (JStr ''update'') then Some UPDATE
      else if v = Some (JStr ''delete'') then Some DELETE
      else None)"

text \<open>\<open>z.enum(['approved', 'rejected'])\<close>, then \<open>as ChangeStatus\<close>.\<close>

definition z_enum_decision :: "json option \<Rightarrow> ChangeStatus option" where
  "z_enum_decision v =
     (if v = Some (JStr ''approved'') then Some APPROVED
      else if v = Some (JStr ''rejected'') then Some REJECTED
      else None)"

text \<open>\<open>z.enum(['editor'])\<close>, then \<open>as UserRole\<close>.\<close>

definition z_enum_editor :: "json option \<Rightarrow> UserRole option" where
  "z_enum_editor v = (if v = Some (JStr ''editor'') then Some EDITOR else None)"

record CreateChangeInput =
  ci_action :: ActionType
  ci_resourceType :: string
  ci_resourceId :: "string option"
  ci_changeData :: "json option"
  ci_previousData :: "json option"

definition createChangeSchema :: "json \<Rightarrow> error + CreateChangeInput" where
  "createChangeSchema body =
     (if \<not> is_object body then Inl ZodError
      else case (z_enum_action (field ''action'' body),
                 z_string (field ''resourceType'' body),
                 z_string_optional (field ''resourceId'' body)) of
             (Some a, Some rt, Some rid) \<Rightarrow>
               Inr \<lparr> ci_action = a, ci_resourceType = rt, ci_resourceId = rid,
                     ci_changeData = field ''changeData'' body,
                     ci_previousData = field ''previousData'' body \<rparr>
           | _ \<Rightarrow> Inl ZodError)"

record ReviewInput =
  ri_status :: ChangeStatus
  ri_reviewNotes :: "string option"

definition reviewSchema :: "json \<Rightarrow> error + ReviewInput" where
  "reviewSchema body =
     (if \<not> is_object body then Inl ZodError
      else case (z_enum_decision (field ''status'' body),
                 z_string_optional (field ''reviewNotes'' body)) of
             (Some s, Some notes) \<Rightarrow> Inr \<lparr> ri_status = s, ri_reviewNotes = notes \<rparr>
           | _ \<Rightarrow> Inl ZodError)"

section \<open>Pending-change routes\<close>

text \<open>
  The handler of \<open>router.post('/')\<close>: submit a change for approval. \<open>user\<close> is
  \<open>req.user\<close>, \<open>body\<close> is \<open>req.body\<close>. The result is the response sent and the database
  the request leaves behind.
\<close>

definition submit_handler ::
  "env \<Rightarrow> JWTPayload option \<Rightarrow> json \<Rightarrow> db \<Rightarrow> PendingChange response \<times> db" where
  "submit_handler e user body d =
     (case user of
        None \<Rightarrow> (Failure 401 ''Not authenticated'', d)
      | Some u \<Rightarrow>
          if jwt_role u = ADMIN
          then (Failure 400 ''Super admins do not need approval for changes'', d)
          else
            (case createChangeSchema body of
               Inl err \<Rightarrow> (catch_zod err, d)
             | Inr data \<Rightarrow>
                 (case PendingChangeModel_create (fail_write e) (uuid e) (db_now e)
                         \<lparr> cd_userId = jwt_userId u,
                           cd_action = ci_action data,
                           cd_resourceType = ci_resourceType data,
                           cd_resourceId = ci_resourceId data,
                           cd_changeData = ci_changeData data,
                           cd_previousData = ci_previousData data \<rparr> d of
                    Inl err \<Rightarrow> (catch_zod err, d)
                  | Inr (pendingChange, d1) \<Rightarrow>
                      (case AuditLogModel_create (fail_audit e) (audit_uuid e) (audit_now e)
                              \<lparr> ad_userId = jwt_userId u,
                                ad_action = CREATE,
                                ad_resourceType = Some ''pending_change'',
                                ad_resourceId = Some (pc_id pendingChange),
                                ad_details = Some (object_literal
                                  [(''changeType'', Some (JStr (ActionType_value (ci_action data)))),
                                   (''targetResource'', Some (JStr (ci_resourceType data)))]),
                                ad_ipAddress = None,
                                ad_userAgent = None \<rparr> d1 of
                         Inl err \<Rightarrow> (catch_zod err, d1)
                       | Inr (entry, d2) \<Rightarrow>
                           (Success ''Change submitted for approval'' pendingChange, d2)))))"

text \<open>The audit entry the review handler writes for a decision on \<open>pendingChange\<close>.\<close>

definition review_audit_data ::
  "JWTPayload \<Rightarrow> string \<Rightarrow> ReviewInput \<Rightarrow> PendingChange \<Rightarrow> CreateAuditLogData" where
  "review_audit_data u ident data pendingChange =
     \<lparr> ad_userId = jwt_userId u,
       ad_action = (if ri_status data = APPROVED then APPROVE else REJECT),
       ad_resourceType = Some ''pending_change'',
       ad_resourceId = Some ident,
       ad_details = Some (object_literal
         [(''originalAction'', Some (JStr (ActionType_value (pc_action pendingChange)))),
          (''targetResource'', Some (JStr (pc_resourceType pendingChange))),
          (''reviewNotes'', map_option JStr (ri_reviewNotes data))]),
       ad_ipAddress = None,
       ad_userAgent = None \<rparr>"

text \<open>
  The handler of \<open>router.post('/:id/review')\<close>, run without interruption. \<open>ident\<close> is
  \<open>req.params.id\<close>.
\<close>

definition review_handler ::
  "env \<Rightarrow> JWTPayload option \<Rightarrow> string \<Rightarrow> json \<Rightarrow> db \<Rightarrow> PendingChange option response \<times> db" where
  "review_handler e user ident body d =
     (case user of
        None \<Rightarrow> (Failure 401 ''Not authenticated'', d)
      | Some u \<Rightarrow>
          if ident = [] then (Failure 400 ''Change ID is required'', d)
          else
            (case reviewSchema body of
               Inl err \<Rightarrow> (catch_zod err, d)
             | Inr data \<Rightarrow>
                 (case PendingChangeModel_getById (fail_read e) d ident of
                    Inl err \<Rightarrow> (catch_zod err, d)
                  | Inr None \<Rightarrow> (Failure 404 ''Pending change not found'', d)
                  | Inr (Some pendingChange) \<Rightarrow>
                      if pc_status pendingChange \<noteq> PENDING
                      then (Failure 400 ''This change has already been reviewed'', d)
                      else
                        (case PendingChangeModel_review (fail_write e) (date1 e) (date2 e) ident
                                \<lparr> rd_reviewedBy = jwt_userId u,
                                  rd_status = ri_status data,
                                  rd_reviewNotes = ri_reviewNotes data \<rparr> d of
                           Inl err \<Rightarrow> (catch_zod err, d)
                         | Inr (reviewed, d1) \<Rightarrow>
                             (case AuditLogModel_create (fail_audit e) (audit_uuid e) (audit_now e)
                                     (review_audit_data u ident data pendingChange) d1 of
                                Inl err \<Rightarrow> (catch_zod err, d1)
                              | Inr (entry, d2) \<Rightarrow>
                                  (Success (''Change '' @ ChangeStatus_value (ri_status data)) reviewed,
                                   d2))))))"

subsection \<open>The review handler between its awaits\<close>

text \<open>
  The handler is an async function: it gives up control at each \<open>await\<close>, and another
  request may run there. A task is a request in flight, stopped before its next query.
\<close>

datatype review_task =
    Responded "PendingChange option response"
  | AwaitReview JWTPayload string ReviewInput PendingChange
  | AwaitAudit JWTPayload string ReviewInput PendingChange "PendingChange option"

text \<open>From the start of the handler to the status check that follows \<open>getById\<close>.\<close>

definition review_begin :: "env \<Rightarrow> JWTPayload option \<Rightarrow> string \<Rightarrow> json \<Rightarrow> db \<Rightarrow> review_task" where
  "review_begin e user ident body d =
     (case user of
        None \<Rightarrow> Responded (Failure 401 ''Not authenticated'')
      | Some u \<Rightarrow>
          if ident = [] then Responded (Failure 400 ''Change ID is required'')
          else
            (case reviewSchema body of
               Inl err \<Rightarrow> Responded (catch_zod err)
             | Inr data \<Rightarrow>
                 (case PendingChangeModel_getById (fail_read e) d ident of
                    Inl err \<Rightarrow> Responded (catch_zod err)
                  | Inr None \<Rightarrow> Responded (Failure 404 ''Pending change not found'')
                  | Inr (Some pendingChange) \<Rightarrow>
                      if pc_status pendingChange \<noteq> PENDING
                      then Responded (Failure 400 ''This change has already been reviewed'')
                      else AwaitReview u ident data pendingChange)))"

text \<open>The next query of a task: the UPDATE, then the audit INSERT and the response.\<close>

fun review_resume :: "env \<Rightarrow> review_task \<Rightarrow> db \<Rightarrow> review_task \<times> db" where
  "review_resume e (Responded r) d = (Responded r, d)"
| "review_resume e (AwaitReview u ident data pendingChange) d =
     (case PendingChangeModel_review (fail_write e) (date1 e) (date2 e) ident
             \<lparr> rd_reviewedBy = jwt_userId u,
               rd_status = ri_status data,
               rd_reviewNotes = ri_reviewNotes data \<rparr> d of
        Inl err \<Rightarrow> (Responded (catch_zod err), d)
      | Inr (reviewed, d1) \<Rightarrow> (AwaitAudit u ident data pendingChange reviewed, d1))"
| "review_resume e (AwaitAudit u ident data pendingChange reviewed) d =
     (case AuditLogModel_create (fail_audit e) (audit_uuid e) (audit_now e)
             (review_audit_data u ident data pendingChange) d of
        Inl err \<Rightarrow> (Responded (catch_zod err), d)
      | Inr (entry, d2) \<Rightarrow>
          (Responded (Success (''Change '' @ ChangeStatus_value (ri_status data)) reviewed), d2))"

text \<open>
  Two review requests whose first awaits overlap: both read the row, then the first
  request runs to its response, then the second does.
\<close>

definition review_race ::
  "env \<Rightarrow> JWTPayload option \<Rightarrow> json \<Rightarrow> env \<Rightarrow> JWTPayload option \<Rightarrow> json \<Rightarrow> string \<Rightarrow> db \<Rightarrow>
     (review_task \<times> review_task) \<times> db" where
  "review_race e1 user1 body1 e2 user2 body2 ident d =
     (let t1 = review_begin e1 user1 ident body1 d;
          t2 = review_begin e2 user2 ident body2 d;
          (t1a, d1) = review_resume e1 t1 d;
          (t1b, d2) = review_resume e1 t1a d1;
          (t2a, d3) = review_resume e2 t2 d2;
          (t2b, d4) = review_resume e2 t2a d3
      in ((t1b, t2b), d4))"

section \<open>User-management routes\<close>

record CreateUserInput =
  cu_email :: string
  cu_password :: string
  cu_role :: UserRole

text \<open>
  \<open>createUserSchema\<close>. The pattern behind \<open>z.string().email()\<close> belongs to the
  validation library and is the parameter \<open>is_email\<close>.
\<close>

definition createUserSchema :: "(string \<Rightarrow> bool) \<Rightarrow> json \<Rightarrow> error + CreateUserInput" where
  "createUserSchema is_email body =
     (if \<not> is_object body then Inl ZodError
      else case (z_string (field ''email'' body),
                 z_string (field ''password'' body),
                 z_enum_editor (field ''role'' body)) of
             (Some em, Some pw, Some r) \<Rightarrow>
               if is_email em \<and> 6 \<le> length pw
               then Inr \<lparr> cu_email = em, cu_password = pw, cu_role = r \<rparr>
               else Inl ZodError
           | _ \<Rightarrow> Inl ZodError)"

definition updateRoleSchema :: "json \<Rightarrow> error + UserRole" where
  "updateRoleSchema body =
     (if \<not> is_object body then Inl ZodError
      else case z_enum_editor (field ''role'' body) of
             Some r \<Rightarrow> Inr r
           | None \<Rightarrow> Inl ZodError)"

definition toggleActiveSchema :: "json \<Rightarrow> error + bool" where
  "toggleActiveSchema body =
     (if \<not> is_object body then Inl ZodError
      else case z_boolean (field ''isActive'' body) of
             Some b \<Rightarrow> Inr b
           | None \<Rightarrow> Inl ZodError)"

record UserSummary =
  us_id :: string
  us_email :: string
  us_role :: UserRole
  us_isActive :: bool

text \<open>
  The handler of \<open>router.post('/')\<close>: create a user. \<open>hash\<close> is \<open>argon2.hash\<close>.
\<close>

definition users_create_handler ::
  "(string \<Rightarrow> bool) \<Rightarrow> (string \<Rightarrow> string) \<Rightarrow> env \<Rightarrow> JWTPayload option \<Rightarrow> json \<Rightarrow> db \<Rightarrow>
     UserSummary response \<times> db" where
  "users_create_handler is_email hash e user body d =
     (case user of
        None \<Rightarrow> (Failure 401 ''Not authenticated'', d)
      | Some u \<Rightarrow>
          (case createUserSchema is_email body of
             Inl err \<Rightarrow> (catch_zod err, d)
           | Inr data \<Rightarrow>
               (case UserModel_findByEmail (fail_read e) d (cu_email data) of
                  Inl err \<Rightarrow> (catch_zod err, d)
                | Inr (Some existingUser) \<Rightarrow>
                    (Failure 400 ''User with this email already exists'', d)
                | Inr None \<Rightarrow>
                    (case UserModel_create (fail_write e) (uuid e) (db_now e)
                            (cu_email data) (hash (cu_password data)) (cu_role data) d of
                       Inl err \<Rightarrow> (catch_zod err, d)
                     | Inr (newUser, d1) \<Rightarrow>
                         (case AuditLogModel_create (fail_audit e) (audit_uuid e) (audit_now e)
                                 \<lparr> ad_userId = jwt_userId u,
                                   ad_action = CREATE,
                                   ad_resourceType = Some ''user'',
                                   ad_resourceId = Some (u_id newUser),
                                   ad_details = Some (object_literal
                                     [(''email'', Some (JStr (u_email newUser))),
                                      (''role'', Some (JStr (UserRole_value (u_role newUser))))]),
                                   ad_ipAddress = None,
                                   ad_userAgent = None \<rparr> d1 of
                            Inl err \<Rightarrow> (catch_zod err, d1)
                          | Inr (entry, d2) \<Rightarrow>
                              (Success ''User created successfully''
                                 \<lparr> us_id = u_id newUser, us_email = u_email newUser,
                                   us_role = u_role newUser, us_isActive = u_isActive newUser \<rparr>,
                               d2))))))"

text \<open>The handler of \<open>router.patch('/:id/role')\<close>.\<close>

definition users_role_handler ::
  "env \<Rightarrow> JWTPayload option \<Rightarrow> string \<Rightarrow> json \<Rightarrow> db \<Rightarrow> unit response \<times> db" where
  "users_role_handler e user ident body d =
     (case user of
        None \<Rightarrow> (Failure 401 ''Not authenticated'', d)
      | Some u \<Rightarrow>
          if ident = [] then (Failure 400 ''User ID is required'', d)
          else
            (case updateRoleSchema body of
               Inl err \<Rightarrow> (catch_zod err, d)
             | Inr role \<Rightarrow>
                 (case UserModel_findById (fail_read e) d ident of
                    Inl err \<Rightarrow> (catch_zod err, d)
                  | Inr None \<Rightarrow> (Failure 404 ''User not found'', d)
                  | Inr (Some target) \<Rightarrow>
                      if u_role target = ADMIN then (Failure 403 ''Cannot change admin role'', d)
                      else
                        (case UserModel_updateRole (fail_write e) (date1 e) ident role d of
                           Inl err \<Rightarrow> (catch_zod err, d)
                         | Inr (updated, d1) \<Rightarrow>
                             (case AuditLogModel_create (fail_audit e) (audit_uuid e) (audit_now e)
                                     \<lparr> ad_userId = jwt_userId u,
                                       ad_action = UPDATE,
                                       ad_resourceType = Some ''user'',
                                       ad_resourceId = Some ident,
                                       ad_details = Some (object_literal
                                         [(''oldRole'', Some (JStr (UserRole_value (u_role target)))),
                                          (''newRole'', Some (JStr (UserRole_value role)))]),
                                       ad_ipAddress = None,
                                       ad_userAgent = None \<rparr> d1 of
                                Inl err \<Rightarrow> (catch_zod err, d1)
                              | Inr (entry, d2) \<Rightarrow>
                                  (Success ''User role updated successfully'' (), d2))))))"

text \<open>The handler of \<open>router.patch('/:id/active')\<close>.\<close>

definition users_active_handler ::
  "env \<Rightarrow> JWTPayload option \<Rightarrow> string \<Rightarrow> json \<Rightarrow> db \<Rightarrow> unit response \<times> db" where
  "users_active_handler e user ident body d =
     (case user of
        None \<Rightarrow> (Failure 401 ''Not authenticated'', d)
      | Some u \<Rightarrow>
          if ident = [] then (Failure 400 ''User ID is required'', d)
          else
            (case toggleActiveSchema body of
               Inl err \<Rightarrow> (catch_zod err, d)
             | Inr isActive \<Rightarrow>
                 (case UserModel_findById (fail_read e) d ident of
                    Inl err \<Rightarrow> (catch_zod err, d)
                  | Inr None \<Rightarrow> (Failure 404 ''User not found'', d)
                  | Inr (Some target) \<Rightarrow>
                      if u_role target = ADMIN then (Failure 403 ''Cannot deactivate admin'', d)
                      else if ident = jwt_userId u
                      then (Failure 403 ''Cannot deactivate your own account'', d)
                      else
                        (case UserModel_toggleActive (fail_write e) (date1 e) ident isActive d of
                           Inl err \<Rightarrow> (catch_zod err, d)
                         | Inr (updated, d1) \<Rightarrow>
                             (case AuditLogModel_create (fail_audit e) (audit_uuid e) (audit_now e)
                                     \<lparr> ad_userId = jwt_userId u,
                                       ad_action = UPDATE,
                                       ad_resourceType = Some ''user'',
                                       ad_resourceId = Some ident,
                                       ad_details = Some (object_literal
                                         [(''action'', Some (JStr (if isActive then ''activated''
                                                                   else ''deactivated'')))]),
                                       ad_ipAddress = None,
                                       ad_userAgent = None \<rparr> d1 of
                                Inl err \<Rightarrow> (catch_zod err, d1)
                              | Inr (entry, d2) \<Rightarrow>
                                  (Success (''User '' @ (if isActive then ''activated''
                                                         else ''deactivated'') @ '' successfully'') (),
                                   d2))))))"

text \<open>
  The handler of \<open>router.delete('/:id')\<close>. It parses no body, and its \<open>catch\<close> block
  answers 500 to every error.
\<close>

definition users_delete_handler ::
  "env \<Rightarrow> JWTPayload option \<Rightarrow> string \<Rightarrow> db \<Rightarrow> unit response \<times> db" where
  "users_delete_handler e user ident d =
     (case user of
        None \<Rightarrow> (Failure 401 ''Not authenticated'', d)
      | Some u \<Rightarrow>
          if ident = [] then (Failure 400 ''User ID is required'', d)
          else
            (case UserModel_findById (fail_read e) d ident of
               Inl err \<Rightarrow> (Failure 500 ''Internal server error'', d)
             | Inr None \<Rightarrow> (Failure 404 ''User not found'', d)
             | Inr (Some target) \<Rightarrow>
                 if u_role target = ADMIN then (Failure 403 ''Cannot delete admin'', d)
                 else if ident = jwt_userId u
                 then (Failure 403 ''Cannot delete your own account'', d)
                 else
                   (case UserModel_deleteById (fail_write e) ident d of
                      Inl err \<Rightarrow> (Failure 500 ''Internal server error'', d)
                    | Inr (deleted, d1) \<Rightarrow>
                        (case AuditLogModel_create (fail_audit e) (audit_uuid e) (audit_now e)
                                \<lparr> ad_userId = jwt_userId u,
                                  ad_action = DELETE,
                                  ad_resourceType = Some ''user'',
                                  ad_resourceId = Some ident,
                                  ad_details = Some (object_literal
                                    [(''email'', Some (JStr (u_email target))),
                                     (''role'', Some (JStr (UserRole_value (u_role target))))]),
                                  ad_ipAddress = None,
                                  ad_userAgent = None \<rparr> d1 of
                           Inl err \<Rightarrow> (Failure 500 ''Internal server error'', d1)
                         | Inr (entry, d2) \<Rightarrow> (Success ''User deleted successfully'' (), d2)))))"

section \<open>Authentication routes\<close>

record ChangePasswordInput =
  cp_currentPassword :: string
  cp_newPassword :: string

definition changePasswordSchema :: "json \<Rightarrow> error + ChangePasswordInput" where
  "changePasswordSchema body =
     (if \<not> is_object body then Inl ZodError
      else case (z_string (field ''currentPassword'' body),
                 z_string (field ''newPassword'' body)) of
             (Some cur, Some new) \<Rightarrow>
               if 6 \<le> length new
               then Inr \<lparr> cp_currentPassword = cur, cp_newPassword = new \<rparr>
               else Inl ZodError
           | _ \<Rightarrow> Inl ZodError)"

text \<open>
  The handler of \<open>router.post('/change-password')\<close>, the one route outside user
  management that writes the users table. \<open>verify\<close> is \<open>argon2.verify\<close>. The login and
  logout routes and the catalog routes write neither users nor pending changes.
\<close>

definition change_password_handler ::
  "(string \<Rightarrow> string) \<Rightarrow> (string \<Rightarrow> string \<Rightarrow> bool) \<Rightarrow> env \<Rightarrow> JWTPayload option \<Rightarrow> json \<Rightarrow> db \<Rightarrow>
     unit response \<times> db" where
  "change_password_handler hash verify e user body d =
     (case user of
        None \<Rightarrow> (Failure 401 ''Not authenticated'', d)
      | Some u \<Rightarrow>
          (case changePasswordSchema body of
             Inl err \<Rightarrow> (catch_zod err, d)
           | Inr data \<Rightarrow>
               (case UserModel_findById (fail_read e) d (jwt_userId u) of
                  Inl err \<Rightarrow> (catch_zod err, d)
                | Inr None \<Rightarrow> (Failure 404 ''User not found'', d)
                | Inr (Some usr) \<Rightarrow>
                    if \<not> verify (u_password usr) (cp_currentPassword data)
                    then (Failure 401 ''Current password is incorrect'', d)
                    else
                      (case UserModel_updatePassword (fail_write e) (date1 e) (u_id usr)
                              (hash (cp_newPassword data)) d of
                         Inl err \<Rightarrow> (catch_zod err, d)
                       | Inr (updated, d1) \<Rightarrow> (Message ''Password changed successfully'', d1)))))"

section \<open>The audit middleware\<close>

text \<open>What the middleware reads from the request.\<close>

record http_request =
  rq_method :: string
  rq_path :: string
  rq_body :: "json option"
  rq_query :: json
  rq_params :: "(string \<times> string) list"
  rq_forwarded_for :: "string option"
  rq_user_agent :: "string option"
  rq_remoteAddress :: "string option"

text \<open>JavaScript truthiness of a JSON value, and \<open>a || b\<close> with \<open>undefined\<close> as \<open>None\<close>.\<close>

fun truthy :: "json \<Rightarrow> bool" where
  "truthy JNull = False"
| "truthy (JBool b) = b"
| "truthy (JNum n) = (n \<noteq> 0)"
| "truthy (JStr s) = (s \<noteq> [])"
| "truthy (JArr xs) = True"
| "truthy (JObj kvs) = True"

fun or_js :: "json option \<Rightarrow> json option \<Rightarrow> json option" where
  "or_js None b = b"
| "or_js (Some v) b = (if truthy v then Some v else b)"

fun or_str :: "string option \<Rightarrow> string \<Rightarrow> string" where
  "or_str None b = b"
| "or_str (Some s) b = (if s \<noteq> [] then s else b)"

text \<open>\<open>data?.data?.id\<close>\<close>

definition data_data_id :: "json \<Rightarrow> json option" where
  "data_data_id data =
     (case field ''data'' data of
        None \<Rightarrow> None
      | Some JNull \<Rightarrow> None
      | Some inner \<Rightarrow> field ''id'' inner)"

definition is_space :: "char \<Rightarrow> bool" where
  "is_space c = (c \<in> {CHR '' '', CHR 0x09, CHR 0x0A, CHR 0x0B, CHR 0x0C, CHR 0x0D, CHR 0xA0})"

definition trim :: "string \<Rightarrow> string" where
  "trim s = rev (dropWhile is_space (rev (dropWhile is_space s)))"

text \<open>\<open>(forwarded || remoteAddress || '').split(',')[0]?.trim()\<close>\<close>

definition ipAddress_of :: "http_request \<Rightarrow> string" where
  "ipAddress_of req =
     trim (takeWhile (\<lambda>c. c \<noteq> CHR '','')
             (or_str (rq_forwarded_for req) (or_str (rq_remoteAddress req) [])))"

text \<open>
  A value bound to a \<open>varchar\<close> column. A string goes in as it is; how the driver writes
  any other value is the parameter \<open>to_text\<close>.
\<close>

fun sql_text :: "(json \<Rightarrow> string) \<Rightarrow> json option \<Rightarrow> string option" where
  "sql_text to_text None = None"
| "sql_text to_text (Some JNull) = None"
| "sql_text to_text (Some (JStr s)) = Some s"
| "sql_text to_text (Some v) = Some (to_text v)"

text \<open>
  The \<open>res.json\<close> that \<open>auditLog(action, resourceType)\<close> installs for an authenticated
  request: below status 400 it starts \<open>AuditLogModel.create\<close>, whose rejection goes to
  \<open>.catch\<close> and is only printed; then it sends \<open>data\<close> as the original \<open>res.json\<close> does.
\<close>

definition auditLog_json ::
  "(json \<Rightarrow> string) \<Rightarrow> env \<Rightarrow> ActionType \<Rightarrow> string option \<Rightarrow> http_request \<Rightarrow> JWTPayload \<Rightarrow>
     nat \<Rightarrow> json \<Rightarrow> db \<Rightarrow> (nat \<times> json) \<times> db" where
  "auditLog_json to_text e action resourceType req u statusCode data d =
     (if statusCode < 400
      then
        let resourceId = or_js (or_js (map_option JStr (map_of (rq_params req) ''id''))
                                      (field ''id'' data))
                               (data_data_id data)
        in (case AuditLogModel_create (fail_audit e) (audit_uuid e) (audit_now e)
                   \<lparr> ad_userId = jwt_userId u,
                     ad_action = action,
                     ad_resourceType = resourceType,
                     ad_resourceId = sql_text to_text resourceId,
                     ad_details = Some (object_literal
                       [(''method'', Some (JStr (rq_method req))),
                        (''path'', Some (JStr (rq_path req))),
                        (''body'', rq_body req),
                        (''query'', Some (rq_query req)),
                        (''params'', Some (JObj (map (\<lambda>(k, v). (k, JStr v)) (rq_params req))))]),
                     ad_ipAddress = Some (ipAddress_of req),
                     ad_userAgent = Some (or_str (rq_user_agent req) []) \<rparr> d of
              Inl err \<Rightarrow> ((statusCode, data), d)
            | Inr (entry, d1) \<Rightarrow> ((statusCode, data), d1))
      else ((statusCode, data), d))"

section \<open>Sequences of requests\<close>

text \<open>
  One request to a route that writes, with everything it brings along. A run is a list
  of requests served one after the other.
\<close>

datatype request =
    Submit env "JWTPayload option" json
  | Review env "JWTPayload option" string json
  | CreateUser env "JWTPayload option" json
  | UpdateRole env "JWTPayload option" string json
  | ToggleActive env "JWTPayload option" string json
  | DeleteUser env "JWTPayload option" string
  | ChangePassword env "JWTPayload option" json

fun serve ::
  "(string \<Rightarrow> bool) \<Rightarrow> (string \<Rightarrow> string) \<Rightarrow> (string \<Rightarrow> string \<Rightarrow> bool) \<Rightarrow> request \<Rightarrow> db \<Rightarrow> db" where
  "serve is_email hash verify (Submit e user body) d = snd (submit_handler e user body d)"
| "serve is_email hash verify (Review e user ident body) d =
     snd (review_handler e user ident body d)"
| "serve is_email hash verify (CreateUser e user body) d =
     snd (users_create_handler is_email hash e user body d)"
| "serve is_email hash verify (UpdateRole e user ident body) d =
     snd (users_role_handler e user ident body d)"
| "serve is_email hash verify (ToggleActive e user ident body) d =
     snd (users_active_handler e user ident body d)"
| "serve is_email hash verify (DeleteUser e user ident) d =
     snd (users_delete_handler e user ident d)"
| "serve is_email hash verify (ChangePassword e user body) d =
     snd (change_password_handler hash verify e user body d)"

fun serve_all ::
  "(string \<Rightarrow> bool) \<Rightarrow> (string \<Rightarrow> string) \<Rightarrow> (string \<Rightarrow> string \<Rightarrow> bool) \<Rightarrow> request list \<Rightarrow> db \<Rightarrow> db" where
  "serve_all is_email hash verify [] d = d"
| "serve_all is_email hash verify (r # rs) d =
     serve_all is_email hash verify rs (serve is_email hash verify r d)"

section \<open>Invariants\<close>

text \<open>
  The invariant of a pending change: while it is pending its review metadata is null,
  and afterwards it has a reviewer and a review time.
\<close>

definition review_metadata_ok :: "PendingChange \<Rightarrow> bool" where
  "review_metadata_ok r =
     (if pc_status r = PENDING
      then pc_reviewedBy r = None \<and> pc_reviewedAt r = None \<and> pc_reviewNotes r = None
      else pc_reviewedBy r \<noteq> None \<and> pc_reviewedAt r \<noteq> None)"

definition store_ok :: "db \<Rightarrow> bool" where
  "store_ok d = list_all review_metadata_ok (pendingChanges d)"

text \<open>The stored pending change \<open>ident\<close> exists and has been reviewed.\<close>

definition reviewed_in :: "db \<Rightarrow> string \<Rightarrow> bool" where
  "reviewed_in d ident =
     (case find (\<lambda>r. pc_id r = ident) (pendingChanges d) of
        None \<Rightarrow> False
      | Some r \<Rightarrow> pc_status r \<noteq> PENDING)"

text \<open>The rows of administrators, and their ids.\<close>

definition admin_rows :: "db \<Rightarrow> User list" where
  "admin_rows d = filter (\<lambda>r. u_role r = ADMIN) (users d)"

definition admin_ids :: "db \<Rightarrow> string set" where
  "admin_ids d = u_id ` set (admin_rows d)"

text \<open>
  What user management may not take from an administrator: the account itself, its
  role and its active flag.
\<close>

definition standing :: "User \<Rightarrow> string \<times> string \<times> UserRole \<times> bool" where
  "standing r = (u_id r, u_email r, u_role r, u_isActive r)"

definition admin_standing :: "db \<Rightarrow> (string \<times> string \<times> UserRole \<times> bool) list" where
  "admin_standing d = map standing (admin_rows d)"

text \<open>Whether a response reports success.\<close>

fun is_success :: "'a response \<Rightarrow> bool" where
  "is_success (Success m x) = True"
| "is_success (Message m) = True"
| "is_success (Failure c m) = False"

fun response_of :: "review_task \<Rightarrow> PendingChange option response option" where
  "response_of (Responded r) = Some r"
| "response_of _ = None"

text \<open>Names for the records the two handlers pass to the model functions.\<close>

abbreviation submit_change_data :: "JWTPayload \<Rightarrow> CreateChangeInput \<Rightarrow> CreatePendingChangeData" where
  "submit_change_data u data \<equiv>
     \<lparr> cd_userId = jwt_userId u, cd_action = ci_action data,
       cd_resourceType = ci_resourceType data, cd_resourceId = ci_resourceId data,
       cd_changeData = ci_changeData data, cd_previousData = ci_previousData data \<rparr>"

abbreviation submit_audit_data :: "JWTPayload \<Rightarrow> CreateChangeInput \<Rightarrow> string \<Rightarrow> CreateAuditLogData" where
  "submit_audit_data u data new_id \<equiv>
     \<lparr> ad_userId = jwt_userId u, ad_action = CREATE,
       ad_resourceType = Some ''pending_change'', ad_resourceId = Some new_id,
       ad_details = Some (object_literal
          [(''changeType'', Some (JStr (ActionType_value (ci_action data)))),
           (''targetResource'', Some (JStr (ci_resourceType data)))]),
       ad_ipAddress = None, ad_userAgent = None \<rparr>"

abbreviation review_data :: "JWTPayload \<Rightarrow> ReviewInput \<Rightarrow> ReviewPendingChangeData" where
  "review_data u data \<equiv>
     \<lparr> rd_reviewedBy = jwt_userId u, rd_status = ri_status data,
       rd_reviewNotes = ri_reviewNotes data \<rparr>"

section \<open>Example data\<close>

text \<open>
  A database as the seed script and one more administrator leave it, the identities of
  its users, and request bodies of the two pending-change routes.
\<close>

definition admin1_row :: User where
  "admin1_row = \<lparr> u_id = ''0a000000-0000-4000-8000-000000000001'',
                   u_email = ''admin@gogreen.com'', u_password = ''$argon2id$a'',
                   u_role = ADMIN, u_isActive = True, u_createdAt = 1000, u_updatedAt = 1000 \<rparr>"

definition admin2_row :: User where
  "admin2_row = \<lparr> u_id = ''0b000000-0000-4000-8000-000000000002'',
                   u_email = ''owner@gogreen.com'', u_password = ''$argon2id$b'',
                   u_role = ADMIN, u_isActive = True, u_createdAt = 1001, u_updatedAt = 1001 \<rparr>"

definition editor1_row :: User where
  "editor1_row = \<lparr> u_id = ''0e000000-0000-4000-8000-000000000003'',
                    u_email = ''editor@gogreen.com'', u_password = ''$argon2id$e'',
                    u_role = EDITOR, u_isActive = True, u_createdAt = 1002, u_updatedAt = 1002 \<rparr>"

definition seeded :: db where
  "seeded = \<lparr> users = [admin1_row, admin2_row, editor1_row], auditLogs = [], pendingChanges = [] \<rparr>"

definition identity_of :: "User \<Rightarrow> JWTPayload" where
  "identity_of r = \<lparr> jwt_userId = u_id r, jwt_email = u_email r, jwt_role = u_role r \<rparr>"

definition submit_body :: json where
  "submit_body = JObj [(''action'', JStr ''update''), (''resourceType'', JStr ''product''),
                       (''resourceId'', JStr ''p1''),
                       (''changeData'', JObj [(''price'', JStr ''12.00'')])]"

definition approve_body :: json where
  "approve_body = JObj [(''status'', JStr ''approved''), (''reviewNotes'', JStr ''ok'')]"

definition reject_body :: json where
  "reject_body = JObj [(''status'', JStr ''rejected'')]"

text \<open>A request none of whose queries fails, with the ids and the time it is given.\<close>

definition env_ok :: "string \<Rightarrow> string \<Rightarrow> nat \<Rightarrow> env" where
  "env_ok new_id new_audit_id t =
     \<lparr> fail_read = False, fail_write = False, fail_audit = False,
       uuid = new_id, audit_uuid = new_audit_id,
       db_now = t, audit_now = t + 1, date1 = t, date2 = t \<rparr>"

text \<open>The pending change the editor's submission stores, and the database after it.\<close>

definition change1 :: PendingChange where
  "change1 = \<lparr> pc_id = ''0c000000-0000-4000-8000-000000000004'',
                pc_userId = u_id editor1_row, pc_action = UPDATE,
                pc_resourceType = ''product'', pc_resourceId = Some ''p1'',
                pc_changeData = JObj [(''price'', JStr ''12.00'')], pc_previousData = None,
                pc_status = PENDING, pc_reviewedBy = None, pc_reviewedAt = None,
                pc_reviewNotes = None, pc_createdAt = 2000, pc_updatedAt = 2000 \<rparr>"

definition submit_entry :: AuditLog where
  "submit_entry = \<lparr> al_id = ''0d000000-0000-4000-8000-000000000005'',
                     al_userId = u_id editor1_row, al_action = CREATE,
                     al_resourceType = Some ''pending_change'',
                     al_resourceId = Some (pc_id change1),
                     al_details = Some (JObj [(''changeType'', JStr ''update''),
                                              (''targetResource'', JStr ''product'')]),
                     al_ipAddress = None, al_userAgent = None, al_createdAt = 2001 \<rparr>"

definition submit_env :: env where
  "submit_env = env_ok ''0c000000-0000-4000-8000-000000000004''
                       ''0d000000-0000-4000-8000-000000000005'' 2000"

definition submitted :: db where
  "submitted = seeded \<lparr> auditLogs := [submit_entry], pendingChanges := [change1] \<rparr>"

text \<open>The first administrator approves that change; the database after the review.\<close>

definition review_env :: env where
  "review_env = env_ok ''0f000000-0000-4000-8000-000000000006''
                       ''0f000000-0000-4000-8000-000000000007'' 3000"

definition change1_approved :: PendingChange where
  "change1_approved = change1 \<lparr> pc_status := APPROVED,
                                 pc_reviewedBy := Some (u_id admin1_row),
                                 pc_reviewedAt := Some 3000,
                                 pc_reviewNotes := Some ''ok'',
                                 pc_updatedAt := 3000 \<rparr>"

definition approve_entry :: AuditLog where
  "approve_entry = \<lparr> al_id = ''0f000000-0000-4000-8000-000000000007'',
                      al_userId = u_id admin1_row, al_action = APPROVE,
                      al_resourceType = Some ''pending_change'',
                      al_resourceId = Some (pc_id change1),
                      al_details = Some (JObj [(''originalAction'', JStr ''update''),
                                               (''targetResource'', JStr ''product''),
                                               (''reviewNotes'', JStr ''ok'')]),
                      al_ipAddress = None, al_userAgent = None, al_createdAt = 3001 \<rparr>"

definition approved :: db where
  "approved = seeded \<lparr> auditLogs := [submit_entry, approve_entry],
                        pendingChanges := [change1_approved] \<rparr>"

text \<open>A later request of the second administrator, and a later submission.\<close>

definition review_env2 :: env where
  "review_env2 = env_ok ''0f000000-0000-4000-8000-000000000008''
                        ''0f000000-0000-4000-8000-000000000009'' 4000"

definition submit_env2 :: env where
  "submit_env2 = env_ok ''0c000000-0000-4000-8000-00000000000a''
                        ''0d000000-0000-4000-8000-00000000000b'' 3500"

text \<open>
  The second administrator rejects the same change while the first is approving it: the
  row and the audit log once both requests have been answered.
\<close>

definition change1_overwritten :: PendingChange where
  "change1_overwritten = change1_approved \<lparr> pc_status := REJECTED,
                                             pc_reviewedBy := Some (u_id admin2_row),
                                             pc_reviewedAt := Some 4000,
                                             pc_updatedAt := 4000 \<rparr>"

definition reject_entry :: AuditLog where
  "reject_entry = \<lparr> al_id = ''0f000000-0000-4000-8000-000000000009'',
                     al_userId = u_id admin2_row, al_action = REJECT,
                     al_resourceType = Some ''pending_change'',
                     al_resourceId = Some (pc_id change1),
                     al_details = Some (JObj [(''originalAction'', JStr ''update''),
                                              (''targetResource'', JStr ''product'')]),
                     al_ipAddress = None, al_userAgent = None, al_createdAt = 4001 \<rparr>"

definition raced :: db where
  "raced = seeded \<lparr> auditLogs := [submit_entry, approve_entry, reject_entry],
                     pendingChanges := [change1_overwritten] \<rparr>"

text \<open>The same request when its audit INSERT is rejected.\<close>

definition audit_down :: "env \<Rightarrow> env" where
  "audit_down e = e \<lparr> fail_audit := True \<rparr>"

text \<open>Bodies sent to the user-management routes.\<close>

definition create_admin_body :: json where
  "create_admin_body = JObj [(''email'', JStr ''eve@gogreen.com''), (''password'', JStr ''secret1''),
                             (''role'', JStr ''admin'')]"

definition promote_body :: json where
  "promote_body = JObj [(''role'', JStr ''admin'')]"

definition demote_body :: json where
  "demote_body = JObj [(''role'', JStr ''editor'')]"

definition deactivate_body :: json where
  "deactivate_body = JObj [(''isActive'', JBool False)]"

definition new_password_body :: json where
  "new_password_body = JObj [(''currentPassword'', JStr ''admin123''),
                             (''newPassword'', JStr ''admin456'')]"

text \<open>A database in which the first administrator has sixty audit entries.\<close>

definition login_entry :: "nat \<Rightarrow> AuditLog" where
  "login_entry n = \<lparr> al_id = ''1a000000-0000-4000-8000-'' @ replicate n (CHR ''0''),
                      al_userId = u_id admin1_row, al_action = LOGIN,
                      al_resourceType = None, al_resourceId = None, al_details = None,
                      al_ipAddress = None, al_userAgent = None, al_createdAt = 5000 + n \<rparr>"

definition busy :: db where
  "busy = seeded \<lparr> auditLogs := map login_entry [0..<60] \<rparr>"

section \<open>Facts about the model functions\<close>

lemma AuditLogModel_create_Inr:
  assumes "AuditLogModel_create fail new_id now data d = Inr (entry, d')"
  shows "d' = d\<lparr>auditLogs := auditLogs d @ [entry]\<rparr>"
    and "entry = \<lparr> al_id = new_id, al_userId = ad_userId data, al_action = ad_action data,
                   al_resourceType = ad_resourceType data, al_resourceId = ad_resourceId data,
                   al_details = sql_json (ad_details data), al_ipAddress = ad_ipAddress data,
                   al_userAgent = ad_userAgent data, al_createdAt = now \<rparr>"
    and "\<not> fail"
  using assms by (auto simp: AuditLogModel_create_def Let_def split: if_splits)

lemma PendingChangeModel_create_Inr:
  assumes "PendingChangeModel_create fail new_id now data d = Inr (pc, d')"
  shows "d' = d\<lparr>pendingChanges := pendingChanges d @ [pc]\<rparr>"
    and "pc_status pc = PENDING" and "pc_reviewedBy pc = None"
    and "pc_reviewedAt pc = None" and "pc_reviewNotes pc = None"
    and "pc_id pc = new_id" and "new_id \<notin> pc_id ` set (pendingChanges d)"
    and "pc_userId pc = cd_userId data" and "pc_action pc = cd_action data"
    and "pc_resourceType pc = cd_resourceType data" and "pc_resourceId pc = cd_resourceId data"
    and "Some (pc_changeData pc) = sql_json (cd_changeData data)"
    and "pc_previousData pc = sql_json (cd_previousData data)"
  using assms
  by (auto simp: PendingChangeModel_create_def Let_def split: if_splits option.splits)

lemma PendingChangeModel_review_Inr:
  assumes "PendingChangeModel_review fail t1 t2 ident rd d = Inr (reviewed, d')"
  shows "d' = d\<lparr>pendingChanges := map (\<lambda>r. if pc_id r = ident then review_set rd t1 t2 r else r)
                                       (pendingChanges d)\<rparr>"
    and "reviewed = find (\<lambda>r. pc_id r = ident) (pendingChanges d')"
  using assms by (auto simp: PendingChangeModel_review_def Let_def split: if_splits)

lemma find_map_review:
  "find (\<lambda>r. pc_id r = ident) (map (\<lambda>r. if pc_id r = ident then review_set rd t1 t2 r else r) xs)
   = map_option (review_set rd t1 t2) (find (\<lambda>r. pc_id r = ident) xs)"
  by (induction xs) (auto simp: review_set_def)

lemma find_map_review_other:
  "ident' \<noteq> ident \<Longrightarrow>
   find (\<lambda>r. pc_id r = ident') (map (\<lambda>r. if pc_id r = ident then review_set rd t1 t2 r else r) xs)
   = find (\<lambda>r. pc_id r = ident') xs"
  by (induction xs) (auto simp: review_set_def)

lemma review_success_cases:
  assumes "review_handler e user ident body d = (Success msg reviewed, d')"
  obtains u data pc0 d1 entry where
    "user = Some u" "ident \<noteq> []" "reviewSchema body = Inr data" "\<not> fail_read e"
    "find (\<lambda>r. pc_id r = ident) (pendingChanges d) = Some pc0" "pc_status pc0 = PENDING"
    "PendingChangeModel_review (fail_write e) (date1 e) (date2 e) ident (review_data u data) d
     = Inr (reviewed, d1)"
    "AuditLogModel_create (fail_audit e) (audit_uuid e) (audit_now e)
       (review_audit_data u ident data pc0) d1 = Inr (entry, d')"
    "msg = ''Change '' @ ChangeStatus_value (ri_status data)"
  using assms unfolding review_handler_def PendingChangeModel_getById_def
  by (auto split: option.splits sum.splits prod.splits if_splits error.splits
      elim: catch_zod.elims)

lemma reviewSchema_status:
  "reviewSchema body = Inr data \<Longrightarrow> ri_status data = APPROVED \<or> ri_status data = REJECTED"
  by (auto simp: reviewSchema_def z_enum_decision_def split: if_splits option.splits)

section \<open>Facts about the handlers\<close>

lemma submit_success_cases:
  assumes "submit_handler e user body d = (Success msg pc, d')"
  obtains u data d1 entry where
    "user = Some u" "jwt_role u \<noteq> ADMIN" "createChangeSchema body = Inr data"
    "PendingChangeModel_create (fail_write e) (uuid e) (db_now e) (submit_change_data u data) d
     = Inr (pc, d1)"
    "AuditLogModel_create (fail_audit e) (audit_uuid e) (audit_now e)
       (submit_audit_data u data (pc_id pc)) d1 = Inr (entry, d')"
    "msg = ''Change submitted for approval''"
  using assms unfolding submit_handler_def
  by (auto split: option.splits sum.splits prod.splits if_splits error.splits
      elim: catch_zod.elims)

lemma review_handler_steps:
  "review_handler e user ident body d =
     (let t0 = review_begin e user ident body d;
          (t1, d1) = review_resume e t0 d;
          (t2, d2) = review_resume e t1 d1
      in (the (response_of t2), d2))"
  by (auto simp: review_handler_def review_begin_def Let_def
       split: option.splits sum.splits prod.splits if_splits)

lemma review_set_ok:
  "rd_status rd \<noteq> PENDING \<Longrightarrow> review_metadata_ok (review_set rd t1 t2 r)"
  by (simp add: review_metadata_ok_def review_set_def)

lemma audit_store_ok:
  "AuditLogModel_create fail new_id now data d = Inr (entry, d') \<Longrightarrow> store_ok d' = store_ok d"
  by (auto simp: AuditLogModel_create_def Let_def store_ok_def split: if_splits)

lemma create_store_ok:
  "PendingChangeModel_create fail new_id now data d = Inr (pc, d') \<Longrightarrow> store_ok d \<Longrightarrow> store_ok d'"
  by (auto simp: PendingChangeModel_create_def Let_def store_ok_def review_metadata_ok_def
           split: if_splits option.splits)

lemma review_model_store_ok:
  "PendingChangeModel_review fail t1 t2 ident rd d = Inr (r, d') \<Longrightarrow> rd_status rd \<noteq> PENDING \<Longrightarrow>
   store_ok d \<Longrightarrow> store_ok d'"
  by (auto simp: PendingChangeModel_review_def Let_def store_ok_def list_all_iff review_set_ok
           split: if_splits)

lemma submit_store_ok:
  assumes "store_ok d" shows "store_ok (snd (submit_handler e user body d))"
  using assms unfolding submit_handler_def
  by (auto split: option.splits sum.splits prod.splits
           simp: audit_store_ok create_store_ok)

lemma review_store_ok:
  assumes "store_ok d" shows "store_ok (snd (review_handler e user ident body d))"
proof -
  have "store_ok d1"
    if "reviewSchema body = Inr data"
      and "PendingChangeModel_review (fail_write e) (date1 e) (date2 e) ident
             (review_data u data) d = Inr (r, d1)"
    for data u r d1
    using that assms reviewSchema_status [of body data]
    by (auto intro: review_model_store_ok)
  then show ?thesis
    using assms unfolding review_handler_def
    by (auto split: option.splits sum.splits prod.splits simp: audit_store_ok)
qed

lemma submit_example:
  "submit_handler submit_env (Some (identity_of editor1_row)) submit_body seeded
   = (Success ''Change submitted for approval'' change1, submitted)"
  by (simp add: submit_handler_def submit_env_def env_ok_def identity_of_def editor1_row_def
        admin1_row_def admin2_row_def seeded_def submit_body_def createChangeSchema_def
        z_enum_action_def PendingChangeModel_create_def AuditLogModel_create_def
        user_exists_def change1_def submit_entry_def submitted_def Let_def)

section \<open>Submission\<close>

text \<open>
  C4. An administrator cannot submit a pending change: whatever the body, the handler
  answers with the policy violation ("Super admins do not need approval for changes") and
  leaves the database as it was, so no pending change and no audit entry is created.
\<close>

theorem admin_submit_policy_violation:
  "jwt_role u = ADMIN \<Longrightarrow> submit_handler e (Some u) body d = (PolicyViolation, d)"
  by (simp add: submit_handler_def PolicyViolation_def)

theorem admin_submit_policy_violation_witness:
  "jwt_role (identity_of admin1_row) = ADMIN
   \<and> submit_handler submit_env (Some (identity_of admin1_row)) submit_body seeded
       = (PolicyViolation, seeded)"
  using admin_submit_policy_violation [of "identity_of admin1_row" submit_env submit_body seeded]
  by (simp add: identity_of_def admin1_row_def)

text \<open>
  C6. A successful submission appends exactly one pending change, under an id no stored
  change has; its status is pending and its reviewer, review time and review notes are
  null. The invariant of the store (a pending change has null review metadata, any other
  has a reviewer and a review time) holds after the submission if it held before.
\<close>

theorem submit_stores_pending:
  assumes "submit_handler e user body d = (Success msg pc, d')"
  shows "pendingChanges d' = pendingChanges d @ [pc]
         \<and> pc_id pc \<notin> pc_id ` set (pendingChanges d)
         \<and> pc_status pc = PENDING
         \<and> pc_reviewedBy pc = None \<and> pc_reviewedAt pc = None \<and> pc_reviewNotes pc = None
         \<and> (store_ok d \<longrightarrow> store_ok d')"
proof -
  have ok: "store_ok d \<longrightarrow> store_ok d'"
    using submit_store_ok [of d e user body] assms by simp
  from assms obtain u data d1 entry where
    c: "PendingChangeModel_create (fail_write e) (uuid e) (db_now e) (submit_change_data u data) d
     = Inr (pc, d1)"
    and a: "AuditLogModel_create (fail_audit e) (audit_uuid e) (audit_now e)
       (submit_audit_data u data (pc_id pc)) d1 = Inr (entry, d')"
    by (elim submit_success_cases) blast
  have "pendingChanges d' = pendingChanges d1"
    using AuditLogModel_create_Inr(1) [OF a] by simp
  moreover have "pendingChanges d1 = pendingChanges d @ [pc]"
    using PendingChangeModel_create_Inr(1) [OF c] by simp
  ultimately show ?thesis
    using ok PendingChangeModel_create_Inr(2-7) [OF c] by simp
qed

theorem submit_stores_pending_witness:
  "submit_handler submit_env (Some (identity_of editor1_row)) submit_body seeded
     = (Success ''Change submitted for approval'' change1, submitted)
   \<and> pendingChanges submitted = pendingChanges seeded @ [change1]
   \<and> pc_status change1 = PENDING \<and> pc_reviewedBy change1 = None
   \<and> pc_reviewedAt change1 = None \<and> pc_reviewNotes change1 = None
   \<and> store_ok seeded \<and> store_ok submitted"
  using submit_stores_pending [OF submit_example] submit_example
  by (simp add: store_ok_def seeded_def submitted_def review_metadata_ok_def change1_def)

section \<open>Review\<close>

lemma sql_json_obj [simp]: "sql_json (Some (JObj kvs)) = Some (JObj kvs)"
  by simp

lemma approve_body_parsed:
  "reviewSchema approve_body = Inr \<lparr> ri_status = APPROVED, ri_reviewNotes = Some ''ok'' \<rparr>"
  by (simp add: reviewSchema_def approve_body_def z_enum_decision_def)

lemma review_example:
  "review_handler review_env (Some (identity_of admin1_row)) (pc_id change1) approve_body submitted
   = (Success ''Change approved'' (Some change1_approved), approved)"
  by (simp add: review_handler_def approve_body_parsed review_env_def env_ok_def identity_of_def
        editor1_row_def admin1_row_def admin2_row_def seeded_def submitted_def
        PendingChangeModel_getById_def PendingChangeModel_review_def AuditLogModel_create_def
        review_audit_data_def review_set_def
        user_exists_def change1_def submit_entry_def approve_entry_def approved_def
        change1_approved_def Let_def)

text \<open>
  C5. A submission that succeeds appends exactly one audit entry, with action
  \<open>create\<close>, resource type \<open>pending_change\<close> and the id of the new pending change. A
  review that succeeds appends exactly one audit entry, with action \<open>approve\<close> for the
  decision approved and \<open>reject\<close> for the decision rejected, resource type
  \<open>pending_change\<close>, the id of the reviewed change, and details that hold the original
  action, the target resource type and the review notes (when notes were given).
\<close>

theorem audit_pairing:
  "(submit_handler e (Some u) body d = (Success msg pc, d') \<longrightarrow>
      auditLogs d' = auditLogs d @
        [\<lparr> al_id = audit_uuid e, al_userId = jwt_userId u, al_action = CREATE,
            al_resourceType = Some ''pending_change'', al_resourceId = Some (pc_id pc),
            al_details = Some (JObj [(''changeType'', JStr (ActionType_value (pc_action pc))),
                                     (''targetResource'', JStr (pc_resourceType pc))]),
            al_ipAddress = None, al_userAgent = None, al_createdAt = audit_now e \<rparr>])
   \<and> (review_handler e2 (Some u2) ident body2 d2 = (Success msg2 reviewed, d2')
        \<and> reviewSchema body2 = Inr data
        \<and> find (\<lambda>r. pc_id r = ident) (pendingChanges d2) = Some pc0 \<longrightarrow>
      (ri_status data = APPROVED \<or> ri_status data = REJECTED)
      \<and> auditLogs d2' = auditLogs d2 @
        [\<lparr> al_id = audit_uuid e2, al_userId = jwt_userId u2,
            al_action = (if ri_status data = APPROVED then APPROVE else REJECT),
            al_resourceType = Some ''pending_change'', al_resourceId = Some ident,
            al_details = Some (JObj
              ([(''originalAction'', JStr (ActionType_value (pc_action pc0))),
                (''targetResource'', JStr (pc_resourceType pc0))]
               @ (case ri_reviewNotes data of None \<Rightarrow> [] | Some n \<Rightarrow> [(''reviewNotes'', JStr n)]))),
            al_ipAddress = None, al_userAgent = None, al_createdAt = audit_now e2 \<rparr>])"
proof (intro conjI impI)
  assume s: "submit_handler e (Some u) body d = (Success msg pc, d')"
  then obtain data d1 entry where
    c: "PendingChangeModel_create (fail_write e) (uuid e) (db_now e) (submit_change_data u data) d
        = Inr (pc, d1)"
    and a: "AuditLogModel_create (fail_audit e) (audit_uuid e) (audit_now e)
        (submit_audit_data u data (pc_id pc)) d1 = Inr (entry, d')"
    by (elim submit_success_cases) auto
  have "auditLogs d1 = auditLogs d"
    using PendingChangeModel_create_Inr(1) [OF c] by simp
  moreover have "auditLogs d' = auditLogs d1 @ [entry]"
    using AuditLogModel_create_Inr(1) [OF a] by simp
  moreover have "pc_action pc = ci_action data" "pc_resourceType pc = ci_resourceType data"
    using PendingChangeModel_create_Inr(9,10) [OF c] by simp_all
  ultimately show "auditLogs d' = auditLogs d @
        [\<lparr> al_id = audit_uuid e, al_userId = jwt_userId u, al_action = CREATE,
            al_resourceType = Some ''pending_change'', al_resourceId = Some (pc_id pc),
            al_details = Some (JObj [(''changeType'', JStr (ActionType_value (pc_action pc))),
                                     (''targetResource'', JStr (pc_resourceType pc))]),
            al_ipAddress = None, al_userAgent = None, al_createdAt = audit_now e \<rparr>]"
    using AuditLogModel_create_Inr(2) [OF a] by (simp add: List.map_filter_simps)
next
  assume r: "review_handler e2 (Some u2) ident body2 d2 = (Success msg2 reviewed, d2')
        \<and> reviewSchema body2 = Inr data
        \<and> find (\<lambda>r. pc_id r = ident) (pendingChanges d2) = Some pc0"
  then show "ri_status data = APPROVED \<or> ri_status data = REJECTED"
    using reviewSchema_status by blast
next
  assume r: "review_handler e2 (Some u2) ident body2 d2 = (Success msg2 reviewed, d2')
        \<and> reviewSchema body2 = Inr data
        \<and> find (\<lambda>r. pc_id r = ident) (pendingChanges d2) = Some pc0"
  then obtain d1 entry where
    m: "PendingChangeModel_review (fail_write e2) (date1 e2) (date2 e2) ident (review_data u2 data) d2
        = Inr (reviewed, d1)"
    and a: "AuditLogModel_create (fail_audit e2) (audit_uuid e2) (audit_now e2)
        (review_audit_data u2 ident data pc0) d1 = Inr (entry, d2')"
    by (elim conjE review_success_cases) auto
  have "auditLogs d1 = auditLogs d2"
    using PendingChangeModel_review_Inr(1) [OF m] by simp
  moreover have "auditLogs d2' = auditLogs d1 @ [entry]"
    using AuditLogModel_create_Inr(1) [OF a] by simp
  ultimately show "auditLogs d2' = auditLogs d2 @
        [\<lparr> al_id = audit_uuid e2, al_userId = jwt_userId u2,
            al_action = (if ri_status data = APPROVED then APPROVE else REJECT),
            al_resourceType = Some ''pending_change'', al_resourceId = Some ident,
            al_details = Some (JObj
              ([(''originalAction'', JStr (ActionType_value (pc_action pc0))),
                (''targetResource'', JStr (pc_resourceType pc0))]
               @ (case ri_reviewNotes data of None \<Rightarrow> [] | Some n \<Rightarrow> [(''reviewNotes'', JStr n)]))),
            al_ipAddress = None, al_userAgent = None, al_createdAt = audit_now e2 \<rparr>]"
    using AuditLogModel_create_Inr(2) [OF a]
    by (simp add: review_audit_data_def List.map_filter_simps split: option.splits)
qed

theorem audit_pairing_witness:
  "submit_handler submit_env (Some (identity_of editor1_row)) submit_body seeded
     = (Success ''Change submitted for approval'' change1, submitted)
   \<and> auditLogs submitted = auditLogs seeded @ [submit_entry]
   \<and> review_handler review_env (Some (identity_of admin1_row)) (pc_id change1) approve_body submitted
     = (Success ''Change approved'' (Some change1_approved), approved)
   \<and> auditLogs approved = auditLogs submitted @ [approve_entry]"
  using audit_pairing [where e = submit_env and u = "identity_of editor1_row"
      and body = submit_body and d = seeded and msg = "''Change submitted for approval''"
      and pc = change1 and d' = submitted
      and ?e2.0 = review_env and ?u2.0 = "identity_of admin1_row" and ident = "pc_id change1"
      and ?body2.0 = approve_body and ?d2.0 = submitted and ?msg2.0 = "''Change approved''"
      and reviewed = "Some change1_approved" and d2' = approved
      and data = "\<lparr> ri_status = APPROVED, ri_reviewNotes = Some ''ok'' \<rparr>" and ?pc0.0 = change1]
    submit_example review_example approve_body_parsed
  by (simp add: submitted_def approved_def seeded_def)

text \<open>
  C7. A review that succeeds on a store satisfying its invariant finds the change
  pending, sets its status to the decision, its reviewer to the reviewing identity, its
  review time to the current time and its notes to the notes supplied, and returns the
  updated record, which is also what the store then holds under that id.
\<close>

theorem review_sets_fields:
  assumes "review_handler e (Some u) ident body d = (Success msg reviewed, d')"
    and "reviewSchema body = Inr data"
    and "store_ok d"
  shows "\<exists>pc0. find (\<lambda>r. pc_id r = ident) (pendingChanges d) = Some pc0
           \<and> pc_status pc0 = PENDING
           \<and> (ri_status data = APPROVED \<or> ri_status data = REJECTED)
           \<and> reviewed = Some (pc0\<lparr> pc_status := ri_status data,
                                     pc_reviewedBy := Some (jwt_userId u),
                                     pc_reviewedAt := Some (date1 e),
                                     pc_reviewNotes := ri_reviewNotes data,
                                     pc_updatedAt := date2 e \<rparr>)
           \<and> find (\<lambda>r. pc_id r = ident) (pendingChanges d') = reviewed
           \<and> store_ok d'"
proof -
  from assms(1,2) obtain pc0 d1 entry where
    f: "find (\<lambda>r. pc_id r = ident) (pendingChanges d) = Some pc0"
    and p: "pc_status pc0 = PENDING"
    and m: "PendingChangeModel_review (fail_write e) (date1 e) (date2 e) ident (review_data u data) d
        = Inr (reviewed, d1)"
    and a: "AuditLogModel_create (fail_audit e) (audit_uuid e) (audit_now e)
        (review_audit_data u ident data pc0) d1 = Inr (entry, d')"
    by (elim review_success_cases) auto
  have "pc0 \<in> set (pendingChanges d)"
    using f by (auto simp: find_Some_iff)
  then have "review_metadata_ok pc0"
    using assms(3) by (simp add: store_ok_def list_all_iff)
  then have no_notes: "pc_reviewNotes pc0 = None"
    using p by (simp add: review_metadata_ok_def)
  have pcs: "pendingChanges d' = pendingChanges d1"
    using AuditLogModel_create_Inr(1) [OF a] by simp
  have "reviewed = map_option (review_set (review_data u data) (date1 e) (date2 e))
                     (find (\<lambda>r. pc_id r = ident) (pendingChanges d))"
    using PendingChangeModel_review_Inr [OF m] by (simp add: find_map_review)
  then have r: "reviewed = Some (pc0\<lparr> pc_status := ri_status data,
                                     pc_reviewedBy := Some (jwt_userId u),
                                     pc_reviewedAt := Some (date1 e),
                                     pc_reviewNotes := ri_reviewNotes data,
                                     pc_updatedAt := date2 e \<rparr>)"
    using f no_notes by (simp add: review_set_def split: option.splits)
  have "find (\<lambda>r. pc_id r = ident) (pendingChanges d') = reviewed"
    using PendingChangeModel_review_Inr(2) [OF m] pcs by simp
  moreover have "store_ok d'"
    using review_store_ok [OF assms(3), of e "Some u" ident body] assms(1) by simp
  ultimately show ?thesis
    using f p r reviewSchema_status [OF assms(2)] by simp
qed

theorem review_sets_fields_witness:
  "review_handler review_env (Some (identity_of admin1_row)) (pc_id change1) approve_body submitted
     = (Success ''Change approved'' (Some change1_approved), approved)
   \<and> store_ok submitted
   \<and> pc_status change1_approved = APPROVED
   \<and> pc_reviewedBy change1_approved = Some (u_id admin1_row)
   \<and> pc_reviewedAt change1_approved = Some 3000
   \<and> pc_reviewNotes change1_approved = Some ''ok''
   \<and> find (\<lambda>r. pc_id r = pc_id change1) (pendingChanges approved) = Some change1_approved"
  using review_sets_fields [OF review_example approve_body_parsed] review_example
  by (simp add: store_ok_def submitted_def review_metadata_ok_def change1_def
        change1_approved_def approved_def)

section \<open>What each request leaves untouched\<close>

lemma audit_frame:
  assumes "AuditLogModel_create fail new_id now data d = Inr (entry, d')"
  shows "pendingChanges d' = pendingChanges d" and "users d' = users d"
  using AuditLogModel_create_Inr(1) [OF assms] by simp_all

lemma create_frame:
  assumes "PendingChangeModel_create fail new_id now data d = Inr (pc, d')"
  shows "users d' = users d" and "auditLogs d' = auditLogs d"
  using PendingChangeModel_create_Inr(1) [OF assms] by simp_all

lemma review_frame:
  assumes "PendingChangeModel_review fail t1 t2 ident rd d = Inr (r, d')"
  shows "users d' = users d" and "auditLogs d' = auditLogs d"
  using PendingChangeModel_review_Inr(1) [OF assms] by simp_all

lemma submit_users: "users (snd (submit_handler e user body d)) = users d"
  unfolding submit_handler_def
  by (auto split: option.splits sum.splits prod.splits simp: audit_frame create_frame)

lemma review_users: "users (snd (review_handler e user ident body d)) = users d"
  unfolding review_handler_def
  by (auto split: option.splits sum.splits prod.splits simp: audit_frame review_frame)

lemma submit_pendingChanges:
  "pendingChanges (snd (submit_handler e user body d)) = pendingChanges d
   \<or> (\<exists>pc. pendingChanges (snd (submit_handler e user body d)) = pendingChanges d @ [pc])"
  unfolding submit_handler_def
  by (auto split: option.splits sum.splits prod.splits simp: audit_frame
           dest: PendingChangeModel_create_Inr(1))

lemma UserModel_create_frame:
  "UserModel_create fail new_id now em pw r d = Inr (x, d') \<Longrightarrow> pendingChanges d' = pendingChanges d"
  by (auto simp: UserModel_create_def Let_def split: if_splits)

lemma UserModel_updateRole_frame:
  "UserModel_updateRole fail now ident r d = Inr (x, d') \<Longrightarrow> pendingChanges d' = pendingChanges d"
  by (auto simp: UserModel_updateRole_def split: if_splits)

lemma UserModel_toggleActive_frame:
  "UserModel_toggleActive fail now ident b d = Inr (x, d') \<Longrightarrow> pendingChanges d' = pendingChanges d"
  by (auto simp: UserModel_toggleActive_def split: if_splits)

lemma UserModel_deleteById_frame:
  "UserModel_deleteById fail ident d = Inr (x, d') \<Longrightarrow> pendingChanges d' = pendingChanges d"
  by (auto simp: UserModel_deleteById_def split: if_splits)

lemma users_create_pendingChanges:
  "pendingChanges (snd (users_create_handler is_email hash e user body d)) = pendingChanges d"
  unfolding users_create_handler_def
  by (auto split: option.splits sum.splits prod.splits
           simp: audit_frame UserModel_create_frame)

lemma users_role_pendingChanges:
  "pendingChanges (snd (users_role_handler e user ident body d)) = pendingChanges d"
  by (simp add: users_role_handler_def UserModel_findById_def UserModel_updateRole_def
        AuditLogModel_create_def Let_def
      split: option.splits sum.splits)

lemma users_active_pendingChanges:
  "pendingChanges (snd (users_active_handler e user ident body d)) = pendingChanges d"
  by (simp add: users_active_handler_def UserModel_findById_def UserModel_toggleActive_def
        AuditLogModel_create_def Let_def
      split: option.splits sum.splits)

lemma users_delete_pendingChanges:
  "pendingChanges (snd (users_delete_handler e user ident d)) = pendingChanges d"
  by (simp add: users_delete_handler_def UserModel_findById_def UserModel_deleteById_def
        AuditLogModel_create_def Let_def
      split: option.splits sum.splits)

lemma change_password_pendingChanges:
  "pendingChanges (snd (change_password_handler hash verify e user body d)) = pendingChanges d"
  by (simp add: change_password_handler_def UserModel_findById_def UserModel_updatePassword_def
      split: option.splits sum.splits)

lemma reviewed_in_cong:
  "pendingChanges d' = pendingChanges d \<Longrightarrow> reviewed_in d' ident = reviewed_in d ident"
  by (simp add: reviewed_in_def)

lemma find_snoc:
  "find P (xs @ [y]) = (case find P xs of None \<Rightarrow> (if P y then Some y else None) | Some x \<Rightarrow> Some x)"
  by (induction xs) auto

lemma catch_zod_not_success [simp]: "\<not> is_success (catch_zod err)"
  by (cases err) simp_all

lemma review_rejected:
  assumes "reviewed_in d ident"
  shows "\<not> is_success (fst (review_handler e user ident body d))"
    and "snd (review_handler e user ident body d) = d"
    and "user \<noteq> None \<Longrightarrow> ident \<noteq> [] \<Longrightarrow> reviewSchema body = Inr data \<Longrightarrow> \<not> fail_read e \<Longrightarrow>
         review_handler e user ident body d = (InvalidState, d)"
  using assms
  by (auto simp: review_handler_def reviewed_in_def PendingChangeModel_getById_def
        InvalidState_def
      split: option.splits sum.splits error.splits)

lemma review_reviewed_in:
  assumes "reviewed_in d ident"
  shows "reviewed_in (snd (review_handler e user ident' body d)) ident"
proof (cases "ident' = ident")
  case True
  then show ?thesis using review_rejected(2) [OF assms] assms by simp
next
  case False
  have "reviewed_in d1 ident"
    if "PendingChangeModel_review fl t1 t2 ident' rd d = Inr (r, d1)" for fl t1 t2 rd r d1
    using PendingChangeModel_review_Inr(1) [OF that] assms False
    by (simp add: reviewed_in_def find_map_review_other)
  then show ?thesis
    unfolding review_handler_def
    using assms
    by (auto split: option.splits sum.splits prod.splits
             simp: reviewed_in_cong [OF audit_frame(1)])
qed

lemma serve_reviewed_in:
  assumes "reviewed_in d ident"
  shows "reviewed_in (serve is_email hash verify r d) ident"
proof (cases r)
  case (Submit e user body)
  show ?thesis
    using submit_pendingChanges [of e user body d] assms Submit
    by (auto simp: reviewed_in_def find_snoc split: option.splits)
next
  case (Review e user ident' body)
  then show ?thesis using review_reviewed_in [OF assms] by simp
next
  case (CreateUser e user body)
  then show ?thesis using assms by (simp add: reviewed_in_def users_create_pendingChanges)
next
  case (UpdateRole e user ident' body)
  then show ?thesis using assms by (simp add: reviewed_in_def users_role_pendingChanges)
next
  case (ToggleActive e user ident' body)
  then show ?thesis using assms by (simp add: reviewed_in_def users_active_pendingChanges)
next
  case (DeleteUser e user ident')
  then show ?thesis using assms by (simp add: reviewed_in_def users_delete_pendingChanges)
next
  case (ChangePassword e user body)
  then show ?thesis using assms by (simp add: reviewed_in_def change_password_pendingChanges)
qed

lemma serve_all_reviewed_in:
  "reviewed_in d ident \<Longrightarrow> reviewed_in (serve_all is_email hash verify rs d) ident"
  by (induction rs arbitrary: d) (simp_all add: serve_reviewed_in)

lemma review_success_reviewed_in:
  assumes "review_handler e user ident body d = (Success msg r, d')"
  shows "reviewed_in d' ident" and "ident \<noteq> []"
proof -
  from assms obtain u data pc0 d1 entry where
    f: "find (\<lambda>r. pc_id r = ident) (pendingChanges d) = Some pc0"
    and s: "reviewSchema body = Inr data"
    and m: "PendingChangeModel_review (fail_write e) (date1 e) (date2 e) ident (review_data u data) d
        = Inr (r, d1)"
    and a: "AuditLogModel_create (fail_audit e) (audit_uuid e) (audit_now e)
        (review_audit_data u ident data pc0) d1 = Inr (entry, d')"
    and i: "ident \<noteq> []"
    by (elim review_success_cases) auto
  have "find (\<lambda>r. pc_id r = ident) (pendingChanges d1)
        = Some (review_set (review_data u data) (date1 e) (date2 e) pc0)"
    using PendingChangeModel_review_Inr(1) [OF m] f by (simp add: find_map_review)
  then have "reviewed_in d1 ident"
    using reviewSchema_status [OF s] by (auto simp: reviewed_in_def review_set_def)
  then show "reviewed_in d' ident"
    using audit_frame(1) [OF a] by (simp add: reviewed_in_def)
  show "ident \<noteq> []" by (rule i)
qed

lemma reject_body_parsed:
  "reviewSchema reject_body = Inr \<lparr> ri_status = REJECTED, ri_reviewNotes = None \<rparr>"
  by (simp add: reviewSchema_def reject_body_def z_enum_decision_def)

text \<open>The invariant of the store holds in every database reached from one where it holds.\<close>

lemma serve_store_ok:
  assumes "store_ok d"
  shows "store_ok (serve is_email hash verify r d)"
proof (cases r)
  case (Submit e user body)
  then show ?thesis using submit_store_ok [OF assms] by simp
next
  case (Review e user ident body)
  then show ?thesis using review_store_ok [OF assms] by simp
next
  case (CreateUser e user body)
  then show ?thesis using assms by (simp add: store_ok_def users_create_pendingChanges)
next
  case (UpdateRole e user ident body)
  then show ?thesis using assms by (simp add: store_ok_def users_role_pendingChanges)
next
  case (ToggleActive e user ident body)
  then show ?thesis using assms by (simp add: store_ok_def users_active_pendingChanges)
next
  case (DeleteUser e user ident)
  then show ?thesis using assms by (simp add: store_ok_def users_delete_pendingChanges)
next
  case (ChangePassword e user body)
  then show ?thesis using assms by (simp add: store_ok_def change_password_pendingChanges)
qed

lemma serve_all_store_ok:
  "store_ok d \<Longrightarrow> store_ok (serve_all is_email hash verify rs d)"
  by (induction rs arbitrary: d) (simp_all add: serve_store_ok)

lemma empty_store_ok: "pendingChanges d = [] \<Longrightarrow> store_ok d"
  by (simp add: store_ok_def)

section \<open>A reviewed change stays reviewed\<close>

text \<open>
  C1. When the stored pending change \<open>ident\<close> is no longer pending, a review of it never
  succeeds and leaves the database exactly as it was; a well-formed review (an
  authenticated reviewer, a body the schema accepts, a read that does not fail) is answered
  with the invalid-state error ("This change has already been reviewed"). Hence, once a
  review of a change has succeeded, every later well-formed review of that change,
  after any sequence of requests served in between, is answered with the invalid-state
  error and changes nothing. Requests are served one after the other here.
\<close>

theorem review_requires_pending:
  "(reviewed_in d ident \<longrightarrow>
      \<not> is_success (fst (review_handler e user ident body d))
      \<and> snd (review_handler e user ident body d) = d
      \<and> (user \<noteq> None \<and> ident \<noteq> [] \<and> reviewSchema body = Inr data \<and> \<not> fail_read e \<longrightarrow>
           review_handler e user ident body d = (InvalidState, d)))
   \<and> (review_handler e1 user1 ident1 body1 d1 = (Success msg reviewed, d1')
        \<and> reviewSchema body2 = Inr data2 \<and> \<not> fail_read e2 \<longrightarrow>
      review_handler e2 (Some u2) ident1 body2 (serve_all is_email hash verify rs d1')
        = (InvalidState, serve_all is_email hash verify rs d1'))"
proof (intro conjI impI)
  assume "reviewed_in d ident"
  then show "\<not> is_success (fst (review_handler e user ident body d))"
    and "snd (review_handler e user ident body d) = d"
    by (simp_all add: review_rejected(1,2))
next
  assume "reviewed_in d ident"
    and "user \<noteq> None \<and> ident \<noteq> [] \<and> reviewSchema body = Inr data \<and> \<not> fail_read e"
  then show "review_handler e user ident body d = (InvalidState, d)"
    using review_rejected(3) by blast
next
  assume a: "review_handler e1 user1 ident1 body1 d1 = (Success msg reviewed, d1')
        \<and> reviewSchema body2 = Inr data2 \<and> \<not> fail_read e2"
  then have ok: "review_handler e1 user1 ident1 body1 d1 = (Success msg reviewed, d1')"
    by simp
  have "reviewed_in (serve_all is_email hash verify rs d1') ident1"
    by (rule serve_all_reviewed_in [OF review_success_reviewed_in(1) [OF ok]])
  moreover have "ident1 \<noteq> []"
    by (rule review_success_reviewed_in(2) [OF ok])
  ultimately show "review_handler e2 (Some u2) ident1 body2 (serve_all is_email hash verify rs d1')
        = (InvalidState, serve_all is_email hash verify rs d1')"
    using a by (intro review_rejected(3)) simp_all
qed

theorem review_requires_pending_witness:
  "reviewed_in approved (pc_id change1)
   \<and> review_handler review_env2 (Some (identity_of admin2_row)) (pc_id change1) reject_body approved
       = (InvalidState, approved)
   \<and> review_handler review_env (Some (identity_of admin1_row)) (pc_id change1) approve_body submitted
       = (Success ''Change approved'' (Some change1_approved), approved)
   \<and> (let later = serve_all (\<lambda>s. True) id (=)
                      [Submit submit_env2 (Some (identity_of editor1_row)) submit_body] approved
      in review_handler review_env2 (Some (identity_of admin2_row)) (pc_id change1) reject_body later
         = (InvalidState, later))"
  using review_requires_pending [where d = approved and ident = "pc_id change1"
      and e = review_env2 and user = "Some (identity_of admin2_row)" and body = reject_body
      and data = "\<lparr> ri_status = REJECTED, ri_reviewNotes = None \<rparr>"
      and ?e1.0 = review_env and ?user1.0 = "Some (identity_of admin1_row)"
      and ?ident1.0 = "pc_id change1" and ?body1.0 = approve_body and ?d1.0 = submitted
      and msg = "''Change approved''" and reviewed = "Some change1_approved" and d1' = approved
      and ?body2.0 = reject_body and ?data2.0 = "\<lparr> ri_status = REJECTED, ri_reviewNotes = None \<rparr>"
      and ?e2.0 = review_env2 and ?u2.0 = "identity_of admin2_row"
      and is_email = "\<lambda>s. True" and hash = id and verify = "(=)"
      and rs = "[Submit submit_env2 (Some (identity_of editor1_row)) submit_body]"]
    review_example reject_body_parsed
  by (simp add: reviewed_in_def approved_def change1_approved_def change1_def
        review_env2_def env_ok_def Let_def)

section \<open>Concurrent reviews\<close>

lemma review_update_ignores_status:
  "PendingChangeModel_review False 4000 4000 (pc_id change1)
     \<lparr> rd_reviewedBy = u_id admin2_row, rd_status = REJECTED, rd_reviewNotes = None \<rparr> approved
   = Inr (Some change1_overwritten, approved \<lparr> pendingChanges := [change1_overwritten] \<rparr>)"
  by (simp add: PendingChangeModel_review_def review_set_def approved_def seeded_def
        user_exists_def admin1_row_def admin2_row_def editor1_row_def
        change1_approved_def change1_overwritten_def change1_def Let_def)

text \<open>
  C2. The pending-status check of a review is made by the route on the row it read
  earlier, and the UPDATE that follows selects the row by id alone. When two
  administrators review the same pending change and both requests read the row before
  either writes, each passes the check: the first request approves and is answered with
  success, the second rejects and is answered with success as well, the stored status is
  the decision written last (with the notes of the first review still in place), and the
  audit log holds an approve and a reject entry for the one change.
\<close>

theorem review_race_both_succeed:
  "review_race review_env (Some (identity_of admin1_row)) approve_body
               review_env2 (Some (identity_of admin2_row)) reject_body
               (pc_id change1) submitted
   = ((Responded (Success ''Change approved'' (Some change1_approved)),
       Responded (Success ''Change rejected'' (Some change1_overwritten))),
      raced)"
  by (simp add: review_race_def review_begin_def approve_body_parsed reject_body_parsed
        review_env_def review_env2_def env_ok_def identity_of_def
        editor1_row_def admin1_row_def admin2_row_def seeded_def submitted_def
        PendingChangeModel_getById_def PendingChangeModel_review_def AuditLogModel_create_def
        review_audit_data_def review_set_def
        user_exists_def change1_def submit_entry_def approve_entry_def reject_entry_def
        raced_def change1_approved_def change1_overwritten_def Let_def)

section \<open>Audit failures\<close>

lemma audit_failure_never_success:
  assumes "fail_audit e"
  shows "\<not> is_success (fst (submit_handler e user body d))"
    and "\<not> is_success (fst (review_handler e user ident body d))"
  using assms
  by (simp_all add: submit_handler_def review_handler_def AuditLogModel_create_def
        split: option.splits sum.splits prod.splits)

lemma auditLog_json_response:
  "fst (auditLog_json to_text e action resourceType req u statusCode data d) = (statusCode, data)"
  by (simp add: auditLog_json_def Let_def split: sum.splits prod.splits)

text \<open>
  C3. In the submit and the review handler the audit entry is written with an awaited
  call inside the handler's \<open>try\<close> block. When that INSERT is rejected after the pending
  change has been stored (or reviewed), the handler answers 500 "Internal server error",
  and the stored change stays as written. Only the audit middleware swallows such a
  rejection.
\<close>

theorem audit_failure_fails_request:
  "submit_handler (audit_down submit_env) (Some (identity_of editor1_row)) submit_body seeded
     = (Failure 500 ''Internal server error'', seeded \<lparr> pendingChanges := [change1] \<rparr>)
   \<and> review_handler (audit_down review_env) (Some (identity_of admin1_row)) (pc_id change1)
        approve_body submitted
     = (Failure 500 ''Internal server error'', submitted \<lparr> pendingChanges := [change1_approved] \<rparr>)"
  by (simp add: submit_handler_def review_handler_def approve_body_parsed audit_down_def
        submit_env_def review_env_def env_ok_def identity_of_def
        editor1_row_def admin1_row_def admin2_row_def seeded_def submitted_def submit_body_def
        createChangeSchema_def z_enum_action_def
        PendingChangeModel_create_def
        PendingChangeModel_getById_def PendingChangeModel_review_def AuditLogModel_create_def
        review_set_def user_exists_def change1_def submit_entry_def
        change1_approved_def Let_def)

section \<open>User management\<close>

lemma z_enum_editor_Some: "z_enum_editor v = Some r \<Longrightarrow> r = EDITOR \<and> v = Some (JStr ''editor'')"
  by (auto simp: z_enum_editor_def split: if_splits)

lemma createUserSchema_Inr:
  "createUserSchema is_email body = Inr data \<Longrightarrow>
     cu_role data = EDITOR \<and> field ''role'' body = Some (JStr ''editor'')"
  by (auto simp: createUserSchema_def split: if_splits option.splits dest: z_enum_editor_Some)

lemma updateRoleSchema_Inr:
  "updateRoleSchema body = Inr r \<Longrightarrow> r = EDITOR \<and> field ''role'' body = Some (JStr ''editor'')"
  by (auto simp: updateRoleSchema_def split: if_splits option.splits dest: z_enum_editor_Some)

lemma createUserSchema_error: "createUserSchema is_email body = Inl err \<Longrightarrow> err = ZodError"
  by (auto simp: createUserSchema_def split: if_splits option.splits)

lemma updateRoleSchema_error: "updateRoleSchema body = Inl err \<Longrightarrow> err = ZodError"
  by (auto simp: updateRoleSchema_def split: if_splits option.splits)

text \<open>The users table after each user-management request.\<close>

lemma users_create_users:
  "users (snd (users_create_handler is_email hash e user body d)) = users d
   \<or> (\<exists>newUser. users (snd (users_create_handler is_email hash e user body d)) = users d @ [newUser]
         \<and> u_role newUser = EDITOR \<and> u_id newUser \<notin> u_id ` set (users d))"
proof (cases "createUserSchema is_email body")
  case (Inl err)
  then show ?thesis
    by (simp add: users_create_handler_def split: option.splits)
next
  case (Inr data)
  then have "cu_role data = EDITOR" by (simp add: createUserSchema_Inr)
  then show ?thesis
    using Inr
    by (simp add: users_create_handler_def UserModel_findByEmail_def UserModel_create_def
          AuditLogModel_create_def Let_def split: option.splits)
qed

lemma users_role_users:
  "users (snd (users_role_handler e user ident body d)) = users d
   \<or> (\<exists>target. find (\<lambda>r. u_id r = ident) (users d) = Some target \<and> u_role target \<noteq> ADMIN
         \<and> users (snd (users_role_handler e user ident body d))
             = map (\<lambda>r. if u_id r = ident then r\<lparr>u_role := EDITOR, u_updatedAt := date1 e\<rparr> else r)
                   (users d))"
proof (cases "updateRoleSchema body")
  case (Inl err)
  then show ?thesis
    by (simp add: users_role_handler_def split: option.splits)
next
  case (Inr role)
  then have "role = EDITOR" by (simp add: updateRoleSchema_Inr)
  then show ?thesis
    using Inr
    by (simp add: users_role_handler_def UserModel_findById_def UserModel_updateRole_def
          AuditLogModel_create_def Let_def split: option.splits)
qed

lemma users_active_users:
  "users (snd (users_active_handler e user ident body d)) = users d
   \<or> (\<exists>target. find (\<lambda>r. u_id r = ident) (users d) = Some target \<and> u_role target \<noteq> ADMIN
         \<and> users (snd (users_active_handler e user ident body d))
             = map (\<lambda>r. if u_id r = ident
                         then r\<lparr>u_isActive := projr (toggleActiveSchema body), u_updatedAt := date1 e\<rparr>
                         else r)
                   (users d))"
  by (simp add: users_active_handler_def UserModel_findById_def UserModel_toggleActive_def
        AuditLogModel_create_def Let_def split: option.splits sum.splits)

lemma users_delete_users:
  "users (snd (users_delete_handler e user ident d)) = users d
   \<or> (\<exists>target. find (\<lambda>r. u_id r = ident) (users d) = Some target \<and> u_role target \<noteq> ADMIN
         \<and> users (snd (users_delete_handler e user ident d))
             = filter (\<lambda>r. u_id r \<noteq> ident) (users d))"
  by (simp add: users_delete_handler_def UserModel_findById_def UserModel_deleteById_def
        AuditLogModel_create_def Let_def split: option.splits sum.splits)


lemma find_distinct_unique:
  "distinct (map u_id xs) \<Longrightarrow> find (\<lambda>r. u_id r = i) xs = Some t \<Longrightarrow> r \<in> set xs \<Longrightarrow> u_id r = i \<Longrightarrow>
   r = t"
  by (induction xs) (auto split: if_splits)

lemma filter_map_if_unchanged:
  "(\<And>r. r \<in> set xs \<Longrightarrow> P r \<Longrightarrow> \<not> Q r \<and> \<not> Q (g r)) \<Longrightarrow>
   filter Q (map (\<lambda>r. if P r then g r else r) xs) = filter Q xs"
  by (induction xs) auto

lemma filter_filter_unchanged:
  "(\<And>r. r \<in> set xs \<Longrightarrow> \<not> P r \<Longrightarrow> \<not> Q r) \<Longrightarrow> filter Q (filter P xs) = filter Q xs"
  by (induction xs) auto

lemma map_id_preserved:
  "(\<And>r. u_id (g r) = u_id r) \<Longrightarrow> map u_id (map (\<lambda>r. if P r then g r else r) xs) = map u_id xs"
  by (induction xs) auto

lemma update_keeps_admins:
  assumes dist: "distinct (map u_id (users d))"
    and found: "find (\<lambda>r. u_id r = ident) (users d) = Some target"
    and editor: "u_role target \<noteq> ADMIN"
    and upd: "users d' = map (\<lambda>r. if u_id r = ident then g r else r) (users d)"
    and g_id: "\<And>r. u_id (g r) = u_id r"
    and g_role: "\<And>r. u_role r \<noteq> ADMIN \<Longrightarrow> u_role (g r) \<noteq> ADMIN"
  shows "admin_rows d' = admin_rows d \<and> distinct (map u_id (users d'))"
proof -
  have "\<not> u_role r = ADMIN \<and> \<not> u_role (g r) = ADMIN"
    if "r \<in> set (users d)" "u_id r = ident" for r
    using find_distinct_unique [OF dist found that] editor g_role by simp
  then have "filter (\<lambda>r. u_role r = ADMIN) (users d') = filter (\<lambda>r. u_role r = ADMIN) (users d)"
    unfolding upd by (intro filter_map_if_unchanged) blast
  moreover have "map u_id (users d') = map u_id (users d)"
    unfolding upd using g_id by (rule map_id_preserved)
  ultimately show ?thesis using dist by (simp add: admin_rows_def)
qed

lemma delete_keeps_admins:
  assumes dist: "distinct (map u_id (users d))"
    and found: "find (\<lambda>r. u_id r = ident) (users d) = Some target"
    and editor: "u_role target \<noteq> ADMIN"
    and del: "users d' = filter (\<lambda>r. u_id r \<noteq> ident) (users d)"
  shows "admin_rows d' = admin_rows d \<and> distinct (map u_id (users d'))"
proof -
  have "\<not> u_role r = ADMIN" if "r \<in> set (users d)" "\<not> u_id r \<noteq> ident" for r
    using find_distinct_unique [OF dist found that(1)] that(2) editor by simp
  then have "filter (\<lambda>r. u_role r = ADMIN) (users d') = filter (\<lambda>r. u_role r = ADMIN) (users d)"
    unfolding del by (intro filter_filter_unchanged) blast
  then show ?thesis using dist by (simp add: admin_rows_def del distinct_map_filter)
qed

lemma users_role_admin_rows:
  assumes "distinct (map u_id (users d))"
  shows "admin_rows (snd (users_role_handler e user ident body d)) = admin_rows d
         \<and> distinct (map u_id (users (snd (users_role_handler e user ident body d))))"
  using users_role_users [of e user ident body d]
proof (elim disjE exE conjE)
  assume "users (snd (users_role_handler e user ident body d)) = users d"
  then show ?thesis using assms by (simp add: admin_rows_def)
next
  fix target
  assume f: "find (\<lambda>r. u_id r = ident) (users d) = Some target" and t: "u_role target \<noteq> ADMIN"
    and u: "users (snd (users_role_handler e user ident body d))
       = map (\<lambda>r. if u_id r = ident then r\<lparr>u_role := EDITOR, u_updatedAt := date1 e\<rparr> else r)
             (users d)"
  show ?thesis
    by (rule update_keeps_admins [OF assms f t u]) simp_all
qed

lemma users_active_admin_rows:
  assumes "distinct (map u_id (users d))"
  shows "admin_rows (snd (users_active_handler e user ident body d)) = admin_rows d
         \<and> distinct (map u_id (users (snd (users_active_handler e user ident body d))))"
  using users_active_users [of e user ident body d]
proof (elim disjE exE conjE)
  assume "users (snd (users_active_handler e user ident body d)) = users d"
  then show ?thesis using assms by (simp add: admin_rows_def)
next
  fix target
  assume f: "find (\<lambda>r. u_id r = ident) (users d) = Some target" and t: "u_role target \<noteq> ADMIN"
    and u: "users (snd (users_active_handler e user ident body d))
       = map (\<lambda>r. if u_id r = ident
                   then r\<lparr>u_isActive := projr (toggleActiveSchema body), u_updatedAt := date1 e\<rparr>
                   else r)
             (users d)"
  show ?thesis
    by (rule update_keeps_admins [OF assms f t u]) simp_all
qed

lemma users_delete_admin_rows:
  assumes "distinct (map u_id (users d))"
  shows "admin_rows (snd (users_delete_handler e user ident d)) = admin_rows d
         \<and> distinct (map u_id (users (snd (users_delete_handler e user ident d))))"
  using users_delete_users [of e user ident d]
proof (elim disjE exE conjE)
  assume "users (snd (users_delete_handler e user ident d)) = users d"
  then show ?thesis using assms by (simp add: admin_rows_def)
next
  fix target
  assume f: "find (\<lambda>r. u_id r = ident) (users d) = Some target" and t: "u_role target \<noteq> ADMIN"
    and u: "users (snd (users_delete_handler e user ident d))
              = filter (\<lambda>r. u_id r \<noteq> ident) (users d)"
  show ?thesis
    by (rule delete_keeps_admins [OF assms f t u])
qed

lemma users_create_admin_rows:
  assumes "distinct (map u_id (users d))"
  shows "admin_rows (snd (users_create_handler is_email hash e user body d)) = admin_rows d
         \<and> distinct (map u_id (users (snd (users_create_handler is_email hash e user body d))))"
  using users_create_users [of is_email hash e user body d] assms
  by (auto simp: admin_rows_def)

lemma password_keeps_standing:
  "map standing (filter (\<lambda>r. u_role r = ADMIN)
      (map (\<lambda>r. if u_id r = i then r\<lparr>u_password := p, u_updatedAt := t\<rparr> else r) xs))
   = map standing (filter (\<lambda>r. u_role r = ADMIN) xs)"
  by (induction xs) (auto simp: standing_def)

lemma password_keeps_ids:
  "map u_id (map (\<lambda>r. if u_id r = i then r\<lparr>u_password := p, u_updatedAt := t\<rparr> else r) xs)
   = map u_id xs"
  by (induction xs) auto

lemma password_keeps_admin_ids:
  "map u_id (filter (\<lambda>r. u_role r = ADMIN)
      (map (\<lambda>r. if u_id r = i then r\<lparr>u_password := p, u_updatedAt := t\<rparr> else r) xs))
   = map u_id (filter (\<lambda>r. u_role r = ADMIN) xs)"
  by (induction xs) auto

lemma change_password_admin_standing:
  "admin_standing (snd (change_password_handler hash verify e user body d)) = admin_standing d"
  by (simp add: change_password_handler_def UserModel_findById_def UserModel_updatePassword_def
        admin_standing_def admin_rows_def password_keeps_standing
      split: option.splits sum.splits)

lemma change_password_ids:
  "map u_id (users (snd (change_password_handler hash verify e user body d))) = map u_id (users d)"
  by (simp add: change_password_handler_def UserModel_findById_def UserModel_updatePassword_def
        password_keeps_ids
      split: option.splits sum.splits)

lemma change_password_admin_ids:
  "admin_ids (snd (change_password_handler hash verify e user body d)) = admin_ids d"
proof -
  have "map u_id (admin_rows (snd (change_password_handler hash verify e user body d)))
        = map u_id (admin_rows d)"
    by (simp add: change_password_handler_def UserModel_findById_def UserModel_updatePassword_def
          admin_rows_def password_keeps_admin_ids
        split: option.splits sum.splits)
  then have "set (map u_id (admin_rows (snd (change_password_handler hash verify e user body d))))
        = set (map u_id (admin_rows d))"
    by simp
  then show ?thesis by (simp add: admin_ids_def)
qed

lemma serve_admin_standing:
  assumes "distinct (map u_id (users d))"
  shows "admin_standing (serve is_email hash verify r d) = admin_standing d
         \<and> distinct (map u_id (users (serve is_email hash verify r d)))"
proof (cases r)
  case (Submit e user body)
  then show ?thesis using assms by (simp add: admin_standing_def admin_rows_def submit_users)
next
  case (Review e user ident body)
  then show ?thesis using assms by (simp add: admin_standing_def admin_rows_def review_users)
next
  case (CreateUser e user body)
  then show ?thesis using users_create_admin_rows [OF assms] by (simp add: admin_standing_def)
next
  case (UpdateRole e user ident body)
  then show ?thesis using users_role_admin_rows [OF assms] by (simp add: admin_standing_def)
next
  case (ToggleActive e user ident body)
  then show ?thesis using users_active_admin_rows [OF assms] by (simp add: admin_standing_def)
next
  case (DeleteUser e user ident)
  then show ?thesis using users_delete_admin_rows [OF assms] by (simp add: admin_standing_def)
next
  case (ChangePassword e user body)
  then show ?thesis
    using assms by (simp add: change_password_admin_standing change_password_ids)
qed

lemma serve_all_admin_standing:
  "distinct (map u_id (users d)) \<Longrightarrow>
   admin_standing (serve_all is_email hash verify rs d) = admin_standing d
   \<and> distinct (map u_id (users (serve_all is_email hash verify rs d)))"
proof (induction rs arbitrary: d)
  case Nil
  then show ?case by simp
next
  case (Cons r rs)
  from serve_admin_standing [OF Cons.prems, of is_email hash verify r]
  have 1: "admin_standing (serve is_email hash verify r d) = admin_standing d"
    and 2: "distinct (map u_id (users (serve is_email hash verify r d)))" by simp_all
  from Cons.IH [OF 2] 1 show ?case by simp
qed

lemma serve_admin_ids: "admin_ids (serve is_email hash verify r d) \<subseteq> admin_ids d"
proof (cases r)
  case (Submit e user body)
  then show ?thesis by (simp add: admin_ids_def admin_rows_def submit_users)
next
  case (Review e user ident body)
  then show ?thesis by (simp add: admin_ids_def admin_rows_def review_users)
next
  case (CreateUser e user body)
  then show ?thesis
    using users_create_users [of is_email hash e user body d]
    by (auto simp: admin_ids_def admin_rows_def)
next
  case (UpdateRole e user ident body)
  then show ?thesis
    using users_role_users [of e user ident body d]
    by (auto simp: admin_ids_def admin_rows_def split: if_splits)
next
  case (ToggleActive e user ident body)
  then show ?thesis
    using users_active_users [of e user ident body d]
    by (auto simp: admin_ids_def admin_rows_def split: if_splits)
next
  case (DeleteUser e user ident)
  then show ?thesis
    using users_delete_users [of e user ident d]
    by (auto simp: admin_ids_def admin_rows_def)
next
  case (ChangePassword e user body)
  then show ?thesis by (simp add: change_password_admin_ids)
qed

lemma serve_all_admin_ids: "admin_ids (serve_all is_email hash verify rs d) \<subseteq> admin_ids d"
proof (induction rs arbitrary: d)
  case Nil
  then show ?case by simp
next
  case (Cons r rs)
  have "admin_ids (serve_all is_email hash verify rs (serve is_email hash verify r d))
          \<subseteq> admin_ids (serve is_email hash verify r d)"
    by (rule Cons.IH)
  then show ?case using serve_admin_ids [of is_email hash verify r d] by simp
qed

lemma role_not_editor_rejected:
  assumes "field ''role'' body \<noteq> Some (JStr ''editor'')"
  shows "createUserSchema is_email body = Inl ZodError"
    and "updateRoleSchema body = Inl ZodError"
  using assms
  by (auto simp: createUserSchema_def updateRoleSchema_def z_enum_editor_def split: option.splits)

text \<open>
  C9. The user-management routes accept no role but \<open>editor\<close>: a body whose \<open>role\<close> is
  anything else fails both schemas, the create route and the role route answer 400
  "Invalid input", and the database is unchanged. Whatever requests are served, one
  after the other, no id becomes the id of an administrator that was not one before.
\<close>

theorem only_editor_role_admitted:
  "(field ''role'' body \<noteq> Some (JStr ''editor'') \<longrightarrow>
      createUserSchema is_email body = Inl ZodError
      \<and> users_create_handler is_email hash e (Some u) body d = (Failure 400 ''Invalid input'', d)
      \<and> snd (users_create_handler is_email hash e user body d) = d
      \<and> updateRoleSchema body = Inl ZodError
      \<and> (ident \<noteq> [] \<longrightarrow>
           users_role_handler e (Some u) ident body d = (Failure 400 ''Invalid input'', d))
      \<and> snd (users_role_handler e user ident body d) = d)
   \<and> admin_ids (serve_all is_email hash verify rs d0) \<subseteq> admin_ids d0"
proof (intro conjI impI)
  assume a: "field ''role'' body \<noteq> Some (JStr ''editor'')"
  note c = role_not_editor_rejected(1) [OF a, of is_email] and r = role_not_editor_rejected(2) [OF a]
  show "createUserSchema is_email body = Inl ZodError" by (rule c)
  show "updateRoleSchema body = Inl ZodError" by (rule r)
  show "users_create_handler is_email hash e (Some u) body d = (Failure 400 ''Invalid input'', d)"
    by (simp add: users_create_handler_def c)
  show "snd (users_create_handler is_email hash e user body d) = d"
    by (simp add: users_create_handler_def c split: option.splits)
  show "snd (users_role_handler e user ident body d) = d"
    by (simp add: users_role_handler_def r split: option.splits)
  show "users_role_handler e (Some u) ident body d = (Failure 400 ''Invalid input'', d)"
    if "ident \<noteq> []"
    using that by (simp add: users_role_handler_def r)
next
  show "admin_ids (serve_all is_email hash verify rs d0) \<subseteq> admin_ids d0"
    by (rule serve_all_admin_ids)
qed

theorem only_editor_role_admitted_witness:
  "field ''role'' create_admin_body \<noteq> Some (JStr ''editor'')
   \<and> users_create_handler (\<lambda>s. True) id submit_env (Some (identity_of admin1_row))
        create_admin_body seeded
       = (Failure 400 ''Invalid input'', seeded)
   \<and> field ''role'' promote_body \<noteq> Some (JStr ''editor'')
   \<and> users_role_handler review_env (Some (identity_of admin1_row)) (u_id editor1_row)
        promote_body seeded
       = (Failure 400 ''Invalid input'', seeded)
   \<and> admin_ids (serve_all (\<lambda>s. True) id (=)
        [CreateUser submit_env (Some (identity_of admin1_row)) create_admin_body,
         UpdateRole review_env (Some (identity_of admin1_row)) (u_id editor1_row) promote_body]
        seeded)
       \<subseteq> admin_ids seeded"
  using only_editor_role_admitted [where body = create_admin_body and is_email = "\<lambda>s. True"
      and hash = id and verify = "(=)" and e = submit_env and u = "identity_of admin1_row" and d = seeded
      and rs = "[CreateUser submit_env (Some (identity_of admin1_row)) create_admin_body,
                 UpdateRole review_env (Some (identity_of admin1_row)) (u_id editor1_row)
                   promote_body]"
      and ?d0.0 = seeded]
    only_editor_role_admitted [where body = promote_body and e = review_env
      and u = "identity_of admin1_row" and d = seeded and ident = "u_id editor1_row"]
  by (simp add: create_admin_body_def promote_body_def editor1_row_def)

text \<open>
  C8. When the target of a role update, an activation change or a deletion is an
  administrator, the request does not succeed and the database is unchanged, whoever
  sends it, the administrator included; a well-formed request is answered 403 ("Cannot
  change admin role", "Cannot deactivate admin", "Cannot delete admin"). Over any
  sequence of requests served one after the other on a users table with distinct ids,
  the administrators stay the same accounts, with the role and the active flag they had
  (a password change is all that touches their rows).
\<close>

theorem admin_protected:
  "(find (\<lambda>r. u_id r = ident) (users d) = Some target \<and> u_role target = ADMIN \<longrightarrow>
      \<not> is_success (fst (users_role_handler e user ident body d))
      \<and> snd (users_role_handler e user ident body d) = d
      \<and> \<not> is_success (fst (users_active_handler e user ident body d))
      \<and> snd (users_active_handler e user ident body d) = d
      \<and> \<not> is_success (fst (users_delete_handler e user ident d))
      \<and> snd (users_delete_handler e user ident d) = d
      \<and> (user \<noteq> None \<and> ident \<noteq> [] \<and> \<not> fail_read e \<longrightarrow>
           (updateRoleSchema body \<noteq> Inl ZodError \<longrightarrow>
              users_role_handler e user ident body d = (Failure 403 ''Cannot change admin role'', d))
           \<and> (toggleActiveSchema body \<noteq> Inl ZodError \<longrightarrow>
              users_active_handler e user ident body d = (Failure 403 ''Cannot deactivate admin'', d))
           \<and> users_delete_handler e user ident d = (Failure 403 ''Cannot delete admin'', d)))
   \<and> (distinct (map u_id (users d0)) \<longrightarrow>
        admin_standing (serve_all is_email hash verify rs d0) = admin_standing d0)"
proof (intro conjI impI)
  assume a: "find (\<lambda>r. u_id r = ident) (users d) = Some target \<and> u_role target = ADMIN"
  show "\<not> is_success (fst (users_role_handler e user ident body d))"
    using a by (simp add: users_role_handler_def UserModel_findById_def
                  split: option.splits sum.splits)
  show "snd (users_role_handler e user ident body d) = d"
    using a by (simp add: users_role_handler_def UserModel_findById_def
                  split: option.splits sum.splits)
  show "\<not> is_success (fst (users_active_handler e user ident body d))"
    using a by (simp add: users_active_handler_def UserModel_findById_def
                  split: option.splits sum.splits)
  show "snd (users_active_handler e user ident body d) = d"
    using a by (simp add: users_active_handler_def UserModel_findById_def
                  split: option.splits sum.splits)
  show "\<not> is_success (fst (users_delete_handler e user ident d))"
    using a by (simp add: users_delete_handler_def UserModel_findById_def
                  split: option.splits sum.splits)
  show "snd (users_delete_handler e user ident d) = d"
    using a by (simp add: users_delete_handler_def UserModel_findById_def
                  split: option.splits sum.splits)
next
  assume a: "find (\<lambda>r. u_id r = ident) (users d) = Some target \<and> u_role target = ADMIN"
    and b: "user \<noteq> None \<and> ident \<noteq> [] \<and> \<not> fail_read e"
  show "users_delete_handler e user ident d = (Failure 403 ''Cannot delete admin'', d)"
    using a b by (auto simp: users_delete_handler_def UserModel_findById_def)
  show "users_role_handler e user ident body d = (Failure 403 ''Cannot change admin role'', d)"
    if "updateRoleSchema body \<noteq> Inl ZodError"
    using a b that updateRoleSchema_error [of body]
    by (cases "updateRoleSchema body")
       (auto simp: users_role_handler_def UserModel_findById_def)
  show "users_active_handler e user ident body d = (Failure 403 ''Cannot deactivate admin'', d)"
    if "toggleActiveSchema body \<noteq> Inl ZodError"
  proof -
    have "err = ZodError" if "toggleActiveSchema body = Inl err" for err
      using that by (auto simp: toggleActiveSchema_def split: if_splits option.splits)
    then show ?thesis
      using a b \<open>toggleActiveSchema body \<noteq> Inl ZodError\<close>
      by (cases "toggleActiveSchema body")
         (auto simp: users_active_handler_def UserModel_findById_def)
  qed
next
  assume "distinct (map u_id (users d0))"
  then show "admin_standing (serve_all is_email hash verify rs d0) = admin_standing d0"
    by (simp add: serve_all_admin_standing)
qed

theorem admin_protected_witness:
  "find (\<lambda>r. u_id r = u_id admin1_row) (users seeded) = Some admin1_row
   \<and> u_role admin1_row = ADMIN
   \<and> users_role_handler review_env (Some (identity_of admin1_row)) (u_id admin1_row)
        demote_body seeded
       = (Failure 403 ''Cannot change admin role'', seeded)
   \<and> users_active_handler review_env (Some (identity_of admin1_row)) (u_id admin1_row)
        deactivate_body seeded
       = (Failure 403 ''Cannot deactivate admin'', seeded)
   \<and> users_delete_handler review_env (Some (identity_of admin2_row)) (u_id admin1_row) seeded
       = (Failure 403 ''Cannot delete admin'', seeded)
   \<and> distinct (map u_id (users seeded))
   \<and> admin_standing (serve_all (\<lambda>s. True) id (=)
        [UpdateRole review_env (Some (identity_of admin2_row)) (u_id admin1_row) demote_body,
         ChangePassword review_env (Some (identity_of admin1_row)) new_password_body,
         DeleteUser review_env2 (Some (identity_of admin1_row)) (u_id editor1_row)]
        seeded)
       = [standing admin1_row, standing admin2_row]"
  using admin_protected [where d = seeded and ident = "u_id admin1_row" and target = admin1_row
      and e = review_env and user = "Some (identity_of admin1_row)" and body = demote_body
      and ?d0.0 = seeded and is_email = "\<lambda>s. True" and hash = id and verify = "(=)"
      and rs = "[UpdateRole review_env (Some (identity_of admin2_row)) (u_id admin1_row) demote_body,
                 ChangePassword review_env (Some (identity_of admin1_row)) new_password_body,
                 DeleteUser review_env2 (Some (identity_of admin1_row)) (u_id editor1_row)]"]
    admin_protected [where d = seeded and ident = "u_id admin1_row" and target = admin1_row
      and e = review_env and user = "Some (identity_of admin1_row)" and body = deactivate_body]
    admin_protected [where d = seeded and ident = "u_id admin1_row" and target = admin1_row
      and e = review_env and user = "Some (identity_of admin2_row)"]
  by (simp add: seeded_def admin1_row_def admin2_row_def editor1_row_def admin_rows_def
        admin_standing_def demote_body_def deactivate_body_def updateRoleSchema_def toggleActiveSchema_def
        z_enum_editor_def review_env_def env_ok_def)

section \<open>Audit queries\<close>

lemma orderBy_desc_sorted:
  "sorted_wrt (\<lambda>a b. f b \<le> f a) (orderBy_desc f xs)"
proof -
  have "sorted (map f (sort_key f xs))" by (rule sorted_sort_key)
  then have "sorted_wrt (\<lambda>a b. f a \<le> f b) (sort_key f xs)"
    by (simp add: sorted_wrt_map)
  then show ?thesis
    by (simp add: orderBy_desc_def sorted_wrt_rev)
qed

lemma orderBy_desc_set [simp]: "set (orderBy_desc f xs) = set xs"
  by (simp add: orderBy_desc_def)

lemma orderBy_desc_length [simp]: "length (orderBy_desc f xs) = length xs"
  by (simp add: orderBy_desc_def)

lemma sorted_wrt_take_drop:
  assumes "sorted_wrt P xs" "a \<in> set (take n xs)" "b \<in> set (drop n xs)"
  shows "P a b"
proof -
  have "sorted_wrt P (take n xs @ drop n xs)" using assms(1) by simp
  then show ?thesis using assms(2,3) unfolding sorted_wrt_append by blast
qed

text \<open>
  C10. Called without a limit, \<open>AuditLogModel.getByUserId\<close> returns (when the query
  does not fail) at most 50 entries: the entries of that user, newest first, cut after the
  fiftieth, so that every entry of the user left out is no newer than any entry returned.
\<close>

theorem getByUserId_default_limit:
  assumes "\<not> fail"
  shows "\<exists>rows. AuditLogModel_getByUserId fail d userId None = Inr rows
           \<and> length rows \<le> 50
           \<and> length rows = min 50 (length (filter (\<lambda>r. al_userId r = userId) (auditLogs d)))
           \<and> sorted_wrt (\<lambda>a b. al_createdAt b \<le> al_createdAt a) rows
           \<and> set rows \<subseteq> {r \<in> set (auditLogs d). al_userId r = userId}
           \<and> (\<forall>a \<in> set rows. \<forall>b \<in> {r \<in> set (auditLogs d). al_userId r = userId} - set rows.
                 al_createdAt b \<le> al_createdAt a)"
proof -
  define mine where "mine = filter (\<lambda>r. al_userId r = userId) (auditLogs d)"
  define sorted_rows where "sorted_rows = orderBy_desc al_createdAt mine"
  define rows where "rows = take 50 sorted_rows"
  have res: "AuditLogModel_getByUserId fail d userId None = Inr rows"
    using assms by (simp add: AuditLogModel_getByUserId_def rows_def sorted_rows_def mine_def)
  have srt: "sorted_wrt (\<lambda>a b. al_createdAt b \<le> al_createdAt a) sorted_rows"
    unfolding sorted_rows_def by (rule orderBy_desc_sorted)
  have len: "length rows = min 50 (length mine)"
    by (simp add: rows_def sorted_rows_def min.commute)
  have srt_rows: "sorted_wrt (\<lambda>a b. al_createdAt b \<le> al_createdAt a) rows"
    unfolding rows_def using srt by (rule sorted_wrt_take)
  have sub: "set rows \<subseteq> set mine"
    using set_take_subset [of 50 sorted_rows] by (simp add: rows_def sorted_rows_def)
  have newest: "al_createdAt b \<le> al_createdAt a"
    if "a \<in> set rows" "b \<in> set mine - set rows" for a b
  proof -
    have "set sorted_rows = set (take 50 sorted_rows) \<union> set (drop 50 sorted_rows)"
      by (metis append_take_drop_id set_append)
    then have "b \<in> set (drop 50 sorted_rows)"
      using that(2) by (auto simp: rows_def sorted_rows_def)
    then show ?thesis
      using sorted_wrt_take_drop [OF srt, of a 50 b] that(1) by (simp add: rows_def)
  qed
  have mine_set: "set mine = {r \<in> set (auditLogs d). al_userId r = userId}"
    by (auto simp: mine_def)
  show ?thesis
    using res len srt_rows sub newest unfolding mine_set [symmetric] mine_def [symmetric]
    by (intro exI [of _ rows]) auto
qed

theorem getByUserId_default_limit_witness:
  "\<not> False
   \<and> (\<exists>rows. AuditLogModel_getByUserId False busy (u_id admin1_row) None = Inr rows
         \<and> length rows = 50
         \<and> sorted_wrt (\<lambda>a b. al_createdAt b \<le> al_createdAt a) rows)"
proof -
  have "filter (\<lambda>r. al_userId r = u_id admin1_row) (auditLogs busy) = auditLogs busy"
    by (simp add: busy_def login_entry_def filter_map o_def)
  then have "length (filter (\<lambda>r. al_userId r = u_id admin1_row) (auditLogs busy)) = 60"
    by (simp add: busy_def)
  then show ?thesis
    using getByUserId_default_limit [of False busy "u_id admin1_row"] by auto
qed

end
